theory Spec2Isabelle
  imports Main "HOL-Library.Sublist" "HOL-Library.Word"
begin

section \<open>Data model of the resilient distributed graph (RDG.cpp)\<close>

text \<open>
  Error codes carried by \<open>galois::Result\<close>. RDG.cpp itself produces
  \<open>InvalidArgument\<close> and \<open>ArrowError\<close>; every other \<open>std::error_code\<close> that a
  collaborator (file store, naming service, table loader) hands back is an
  \<open>OtherError\<close>.
\<close>

datatype ErrorCode = InvalidArgument | ArrowError | OtherError nat

text \<open>
  What a call does: it returns a value, it returns an error, or it does not return at
  all (\<open>Fatal\<close>: a failed \<open>assert\<close>, an unchecked out-of-range index, an exception
  that leaves the function).
\<close>

datatype 'a Outcome = Success 'a | Failure ErrorCode | Fatal

text \<open>
  Members keep their names from the source, without the trailing underscore of
  \<open>core_\<close>, \<open>mirror_nodes_\<close>, \<open>lineage_\<close> and the like; the fields of
  \<open>PartitionMetadata\<close> are \<open>part_policy_id\<close> and \<open>part_transposed\<close>.

  An \<open>arrow::ChunkedArray\<close>: its Arrow type and its values.
\<close>

record ChunkedArray =
  array_type :: string
  array_values :: "int list"

text \<open>
  An \<open>arrow::Table\<close>: the columns in order, each with the name of its schema field.
  \<open>schema()->field(i)->name()\<close> is \<open>fst (t ! i)\<close>, \<open>column(i)\<close> is \<open>snd (t ! i)\<close>,
  \<open>num_columns()\<close> is \<open>length t\<close>.
\<close>

type_synonym Table = "(string \<times> ChunkedArray) list"

record PropStorageInfo =
  name :: string
  path :: string
  persist :: bool

record PartitionMetadata =
  part_policy_id :: nat
  part_transposed :: bool

record RDGPartHeader =
  topology_path :: string
  node_prop_info_list :: "PropStorageInfo list"
  edge_prop_info_list :: "PropStorageInfo list"
  part_prop_info_list :: "PropStorageInfo list"
  metadata :: PartitionMetadata

record RDGCore =
  part_header :: RDGPartHeader
  node_table :: Table
  edge_table :: Table
  topology_file_storage :: string

record RDG =
  core :: RDGCore
  mirror_nodes :: "ChunkedArray list"
  master_nodes :: "ChunkedArray list"
  local_to_global_vector :: "ChunkedArray option"
  lineage :: "string list"
  rdg_dir :: string

subsection \<open>Special partition property names\<close>

definition kMirrorNodesPropName :: string where
  "kMirrorNodesPropName = ''mirror_nodes''"

definition kMasterNodesPropName :: string where
  "kMasterNodesPropName = ''master_nodes''"

definition kLocalToTGlobalPropName :: string where
  "kLocalToTGlobalPropName = ''local_to_global_vector''"

text \<open>
  \<open>std::string::find\<close>: the position of the first occurrence of \<open>k\<close> in \<open>s\<close>,
  \<open>None\<close> for \<open>npos\<close>.
\<close>

fun find_from :: "string \<Rightarrow> string \<Rightarrow> nat \<Rightarrow> nat option" where
  "find_from [] k i = (if k = [] then Some i else None)"
| "find_from (c # cs) k i =
     (if prefix k (c # cs) then Some i else find_from cs k (Suc i))"

definition string_find :: "string \<Rightarrow> string \<Rightarrow> nat option" where
  "string_find s k = find_from s k 0"

subsection \<open>Routing of partition-boundary columns\<close>

text \<open>
  Modelled from the spec: \<open>AddMirrorNodes\<close>, \<open>AddMasterNodes\<close> and
  \<open>set_local_to_global_vector\<close> are declared in tsuba/RDG.h, which is not part of
  the sources at hand. The first two append to the mirror and master sequences (the
  sequences that \<open>WritePartArrays\<close> walks by index), the third replaces the
  local-to-global vector.
\<close>

definition AddMirrorNodes :: "ChunkedArray \<Rightarrow> RDG \<Rightarrow> RDG" where
  "AddMirrorNodes a rdg = rdg\<lparr>mirror_nodes := mirror_nodes rdg @ [a]\<rparr>"

definition AddMasterNodes :: "ChunkedArray \<Rightarrow> RDG \<Rightarrow> RDG" where
  "AddMasterNodes a rdg = rdg\<lparr>master_nodes := master_nodes rdg @ [a]\<rparr>"

definition set_local_to_global_vector :: "ChunkedArray \<Rightarrow> RDG \<Rightarrow> RDG" where
  "set_local_to_global_vector a rdg = rdg\<lparr>local_to_global_vector := Some a\<rparr>"

text \<open>
  \<open>tsuba::RDG::AddPartitionMetadataArray\<close>. \<open>field(0)\<close> and \<open>column(0)\<close> of a
  table without columns read out of range.
\<close>

definition AddPartitionMetadataArray :: "Table \<Rightarrow> RDG \<Rightarrow> unit Outcome \<times> RDG" where
  "AddPartitionMetadataArray table rdg =
     (case table of
        [] \<Rightarrow> (Fatal, rdg)
      | (nm, col) # _ \<Rightarrow>
          if string_find nm kMirrorNodesPropName = Some 0 then
            (Success (), AddMirrorNodes col rdg)
          else if string_find nm kMasterNodesPropName = Some 0 then
            (Success (), AddMasterNodes col rdg)
          else if nm = kLocalToTGlobalPropName then
            (Success (), set_local_to_global_vector col rdg)
          else (Failure InvalidArgument, rdg))"

subsection \<open>Versions, handles and the outside world\<close>

text \<open>
  Modelled from the spec: \<open>RDGMeta\<close> is declared outside the sources at hand. It is
  the descriptor of one committed snapshot: directory, version (an unsigned 64-bit
  number), host count, partition policy id, transpose flag and lineage. \<open>NextVersion\<close>
  derives version \<open>N + 1\<close> from version \<open>N\<close> and the new host count, policy and
  lineage.
\<close>

record RDGMeta =
  dir :: string
  version :: "64 word"
  num_hosts :: nat
  policy_id :: nat
  transposed :: bool
  meta_lineage :: "string list"

definition NextVersion :: "RDGMeta \<Rightarrow> nat \<Rightarrow> nat \<Rightarrow> bool \<Rightarrow> string list \<Rightarrow> RDGMeta" where
  "NextVersion m hosts pol tr lin =
     m\<lparr>version := version m + 1, num_hosts := hosts, policy_id := pol,
       transposed := tr, meta_lineage := lin\<rparr>"

text \<open>The object behind an \<open>RDGHandle\<close>: the cached \<open>RDGMeta\<close> and the access flags.\<close>

record RDGHandleImpl =
  rdg_meta :: RDGMeta
  AllowsRead :: bool
  AllowsWrite :: bool

definition set_rdg_meta :: "RDGMeta \<Rightarrow> RDGHandleImpl \<Rightarrow> RDGHandleImpl" where
  "set_rdg_meta m h = h\<lparr>rdg_meta := m\<rparr>"

text \<open>
  Everything the code does to the world outside the RDG is recorded, in order, in a
  trace of events. The \<open>WriteGroup\<close> of a store is the sequence of \<open>EvStartStore\<close>
  events of the trace. \<open>EvFaultPoint\<close> is a \<open>TSUBA_PTP\<close> checkpoint that is
  passed (no fault is injected); logging macros leave no event.
\<close>

datatype FaultSensitivity = Normal | High

datatype FileFrame = ColumnFrame string ChunkedArray | BytesFrame string

datatype Event =
    EvFaultPoint FaultSensitivity
  | EvStartStore string FileFrame
  | EvHeaderWrite RDGPartHeader
  | EvFinish
  | EvBarrier
  | EvNSUpdate string "64 word" RDGMeta
  | EvFileStore string string
  | EvHeaderRead string
  | EvLoadTable string string
  | EvBind string

type_synonym Trace = "Event list"

text \<open>
  The collaborators whose code is not part of the sources at hand (communication
  backend, \<open>galois::Uri\<close>, \<open>FileFrame\<close>, the Parquet writer, \<open>WriteGroup\<close>, naming
  service, file store, the part header's own methods, table loader, \<open>RDGCore\<close>) are
  parameters: each gives the result of a call from the arguments of the call and
  the trace so far. A result \<open>Fatal\<close> of a collaborator is an exception it throws.
  \<open>error_of_value\<close> is what \<open>error()\<close> gives on a \<open>galois::Result\<close> that holds a
  value and no error: \<open>Some c\<close> when it returns an error code, \<open>None\<close> when it
  throws. \<open>default_persist\<close> is the value of the \<open>persist\<close> member of a
  \<open>PropStorageInfo\<close> whose initialiser does not mention it. \<open>NDEBUG\<close> says
  whether the build defines that macro, which compiles every \<open>assert\<close> out.
\<close>

record Env =
  Comm_Num :: nat
  Comm_ID :: nat
  RandFile :: "Trace \<Rightarrow> string \<Rightarrow> string \<Rightarrow> string"
  FileFrame_Init :: "Trace \<Rightarrow> unit Outcome"
  parquet_WriteTable :: "Trace \<Rightarrow> string \<Rightarrow> ChunkedArray \<Rightarrow> unit Outcome"
  PartHeader_Write :: "Trace \<Rightarrow> RDGPartHeader \<Rightarrow> RDGMeta \<Rightarrow> unit Outcome"
  Finish :: "Trace \<Rightarrow> unit Outcome"
  NS_Update :: "Trace \<Rightarrow> string \<Rightarrow> 64 word \<Rightarrow> RDGMeta \<Rightarrow> unit Outcome"
  ToJsonString :: "RDGMeta \<Rightarrow> string"
  RDGMeta_FileName :: "string \<Rightarrow> 64 word \<Rightarrow> string"
  FileStore :: "Trace \<Rightarrow> string \<Rightarrow> string \<Rightarrow> unit Outcome"
  OneHostOnly_peer :: "Trace \<Rightarrow> unit Outcome"
  IsEmptyRDG :: "RDGMeta \<Rightarrow> bool"
  PartitionFileName :: "RDGMeta \<Rightarrow> nat \<Rightarrow> string"
  RDGPartHeader_Make :: "Trace \<Rightarrow> string \<Rightarrow> RDGPartHeader Outcome"
  PrunePropsTo :: "RDGPartHeader \<Rightarrow> string list option \<Rightarrow> string list option
                   \<Rightarrow> RDGPartHeader Outcome"
  LoadTable :: "Trace \<Rightarrow> string \<Rightarrow> string \<Rightarrow> Table Outcome"
  core_AddProperties :: "Table \<Rightarrow> Table \<Rightarrow> Table Outcome"
  FileView_Bind :: "Trace \<Rightarrow> string \<Rightarrow> string Outcome"
  error_of_value :: "ErrorCode option"
  default_persist :: bool
  WriteGroup_Make :: "Trace \<Rightarrow> unit Outcome"
  UnbindFromStorage :: "RDGPartHeader \<Rightarrow> RDGPartHeader"
  NDEBUG :: bool

text \<open>
  Modelled from the spec: \<open>galois::Uri\<close> is not part of the sources at hand. A Uri
  is its path string, \<open>Join\<close> puts a name under a directory, \<open>BaseName\<close> is what
  follows the last separator.
\<close>

definition Uri_Join :: "string \<Rightarrow> string \<Rightarrow> string" where
  "Uri_Join d b = d @ ''/'' @ b"

definition Uri_BaseName :: "string \<Rightarrow> string" where
  "Uri_BaseName p = rev (takeWhile (\<lambda>c. c \<noteq> CHR ''/'') (rev p))"

subsection \<open>Storing one column\<close>

text \<open>
  \<open>DoStoreArrowArrayAtName\<close>: a fresh file name, a file frame, the Parquet encoding
  of the one-column table, then the write is enqueued and the base name returned.
\<close>

definition DoStoreArrowArrayAtName ::
  "Env \<Rightarrow> ChunkedArray \<Rightarrow> string \<Rightarrow> string \<Rightarrow> Trace \<Rightarrow> string Outcome \<times> Trace" where
  "DoStoreArrowArrayAtName env array d nm w =
     (let next_path = RandFile env w d nm in
      case FileFrame_Init env w of
        Failure e \<Rightarrow> (Failure e, w)
      | Fatal \<Rightarrow> (Fatal, w)
      | Success _ \<Rightarrow>
          (case parquet_WriteTable env w nm array of
             Failure e \<Rightarrow> (Failure ArrowError, w)
           | Fatal \<Rightarrow> (Fatal, w)
           | Success _ \<Rightarrow>
               (Success (Uri_BaseName next_path),
                w @ [EvFaultPoint Normal,
                     EvStartStore next_path (ColumnFrame nm array)])))"

text \<open>\<open>StoreArrowArrayAtName\<close>: an exception becomes \<open>ArrowError\<close>.\<close>

definition StoreArrowArrayAtName ::
  "Env \<Rightarrow> ChunkedArray \<Rightarrow> string \<Rightarrow> string \<Rightarrow> Trace \<Rightarrow> string Outcome \<times> Trace" where
  "StoreArrowArrayAtName env array d nm w =
     (case DoStoreArrowArrayAtName env array d nm w of
        (Fatal, w') \<Rightarrow> (Failure ArrowError, w')
      | r \<Rightarrow> r)"

text \<open>\<open>std::to_string\<close> of an unsigned number.\<close>

fun to_string :: "nat \<Rightarrow> string" where
  "to_string n =
     (if n < 10 then [''0123456789'' ! n]
      else to_string (n div 10) @ [''0123456789'' ! (n mod 10)])"

declare to_string.simps [simp del]

definition MirrorPropName :: "nat \<Rightarrow> string" where
  "MirrorPropName i = kMirrorNodesPropName @ ''_'' @ to_string i"

definition MasterPropName :: "nat \<Rightarrow> string" where
  "MasterPropName i = kMasterNodesPropName @ ''_'' @ to_string i"

subsection \<open>Writing a table\<close>

text \<open>
  The first loop of \<open>WriteTable\<close>: every property that is to be persisted and has no
  path is stored, in order; the first failure ends the loop. \<open>i\<close> is the index of the
  head of the remaining properties. Neither \<open>schema->field(i)\<close> nor
  \<open>table.column(i)\<close> checks its index.
\<close>

fun WriteTable_store ::
  "Env \<Rightarrow> Table \<Rightarrow> string \<Rightarrow> nat \<Rightarrow> PropStorageInfo list \<Rightarrow> string list \<Rightarrow> Trace
   \<Rightarrow> string list Outcome \<times> Trace" where
  "WriteTable_store env table d i [] next_paths w = (Success next_paths, w)"
| "WriteTable_store env table d i (p # ps) next_paths w =
     (if \<not> persist p \<or> path p \<noteq> [] then
        WriteTable_store env table d (Suc i) ps next_paths w
      else if length table \<le> i then (Fatal, w)
      else
        (let nm = (if name p = [] then fst (table ! i) else name p) in
         case StoreArrowArrayAtName env (snd (table ! i)) d nm w of
           (Failure e, w') \<Rightarrow> (Failure e, w')
         | (Fatal, w') \<Rightarrow> (Fatal, w')
         | (Success v, w') \<Rightarrow>
             WriteTable_store env table d (Suc i) ps (next_paths @ [v]) w'))"

text \<open>
  The second loop: the new paths are handed out, in order, to the properties that are
  to be persisted and have no path. \<open>None\<close>: the iterator has run past the end of
  \<open>next_paths\<close>.
\<close>

fun WriteTable_assign ::
  "PropStorageInfo list \<Rightarrow> string list \<Rightarrow> PropStorageInfo list option" where
  "WriteTable_assign [] it = Some []"
| "WriteTable_assign (v # vs) it =
     (if persist v \<and> path v = [] then
        (case it of
           [] \<Rightarrow> None
         | x # it' \<Rightarrow> map_option ((#) (v\<lparr>path := x\<rparr>)) (WriteTable_assign vs it'))
      else map_option ((#) v) (WriteTable_assign vs it))"

definition WriteTable ::
  "Env \<Rightarrow> Table \<Rightarrow> PropStorageInfo list \<Rightarrow> string \<Rightarrow> Trace
   \<Rightarrow> PropStorageInfo list Outcome \<times> Trace" where
  "WriteTable env table properties d w =
     (case WriteTable_store env table d 0 properties [] w of
        (Failure e, w') \<Rightarrow> (Failure e, w')
      | (Fatal, w') \<Rightarrow> (Fatal, w')
      | (Success next_paths, w') \<Rightarrow>
          (let w'' = w' @ [EvFaultPoint Normal] in
           if next_paths = [] then (Success properties, w'')
           else
             (case WriteTable_assign properties next_paths of
                None \<Rightarrow> (Fatal, w'')
              | Some next_properties \<Rightarrow> (Success next_properties, w''))))"

subsection \<open>The commit\<close>

text \<open>
  Modelled from the spec: \<open>tsuba::OneHostOnly\<close> is not part of the sources at hand.
  Exactly one host, the one with the lowest id, runs the callback; what the call
  gives on the other hosts is a parameter.
\<close>

definition OneHostOnly ::
  "Env \<Rightarrow> (Trace \<Rightarrow> unit Outcome \<times> Trace) \<Rightarrow> Trace \<Rightarrow> unit Outcome \<times> Trace" where
  "OneHostOnly env cb w = (if Comm_ID env = 0 then cb w else (OneHostOnly_peer env w, w))"

text \<open>The callback that \<open>CommitRDG\<close> hands to \<open>OneHostOnly\<close> (lines 177 to 195).\<close>

definition CommitRDG_store_meta ::
  "Env \<Rightarrow> RDGHandleImpl \<Rightarrow> RDGMeta \<Rightarrow> Trace \<Rightarrow> unit Outcome \<times> Trace" where
  "CommitRDG_store_meta env handle new_meta w =
     (let w1 = w @ [EvFaultPoint High];
          curr_s = ToJsonString env new_meta;
          file = RDGMeta_FileName env (dir (rdg_meta handle)) (version new_meta) in
      case FileStore env w1 file curr_s of
        Failure e \<Rightarrow> (Failure e, w1 @ [EvFileStore file curr_s])
      | Fatal \<Rightarrow> (Fatal, w1 @ [EvFileStore file curr_s])
      | Success _ \<Rightarrow> (Success (), w1 @ [EvFileStore file curr_s]))"

text \<open>
  \<open>CommitRDG\<close>. A failure of the naming service's \<open>Update\<close> is logged and nothing
  else: control goes on to the metadata file whatever \<open>Update\<close> returned.
\<close>

definition CommitRDG ::
  "Env \<Rightarrow> RDGHandleImpl \<Rightarrow> nat \<Rightarrow> bool \<Rightarrow> string list \<Rightarrow> Trace
   \<Rightarrow> unit Outcome \<times> RDGHandleImpl \<times> Trace" where
  "CommitRDG env handle pol tr lin w =
     (let new_meta = NextVersion (rdg_meta handle) (Comm_Num env) pol tr lin;
          w1 = w @ [EvFaultPoint High] in
      case Finish env w1 of
        Failure e \<Rightarrow> (Failure e, handle, w1 @ [EvFinish])
      | Fatal \<Rightarrow> (Fatal, handle, w1 @ [EvFinish])
      | Success _ \<Rightarrow>
          (let w2 = w1 @ [EvFinish, EvFaultPoint High, EvBarrier];
               w3 = w2 @ [EvNSUpdate (dir (rdg_meta handle)) (version (rdg_meta handle))
                            new_meta]
           in
           case NS_Update env w2 (dir (rdg_meta handle)) (version (rdg_meta handle))
                  new_meta of
             Fatal \<Rightarrow> (Fatal, handle, w3)
           | _ \<Rightarrow>
               (case OneHostOnly env (CommitRDG_store_meta env handle new_meta)
                       (w3 @ [EvFaultPoint High]) of
                  (Success _, w4) \<Rightarrow> (Success (), set_rdg_meta new_meta handle, w4)
                | (ret, w4) \<Rightarrow> (ret, handle, w4))))"

subsection \<open>Storing a partition\<close>

text \<open>
  The two loops of \<open>WritePartArrays\<close> over the mirror and the master arrays differ
  in the name function only: \<open>i\<close> is the index of the head of the remaining arrays,
  \<open>next_properties\<close> what has been collected.
\<close>

fun WritePartArrays_loop ::
  "Env \<Rightarrow> (nat \<Rightarrow> string) \<Rightarrow> string \<Rightarrow> nat \<Rightarrow> ChunkedArray list \<Rightarrow> PropStorageInfo list
   \<Rightarrow> Trace \<Rightarrow> PropStorageInfo list Outcome \<times> Trace" where
  "WritePartArrays_loop env prop_name d i [] next_properties w =
     (Success next_properties, w)"
| "WritePartArrays_loop env prop_name d i (a # as) next_properties w =
     (case StoreArrowArrayAtName env a d (prop_name i) w of
        (Failure e, w') \<Rightarrow> (Failure e, w')
      | (Fatal, w') \<Rightarrow> (Fatal, w')
      | (Success v, w') \<Rightarrow>
          WritePartArrays_loop env prop_name d (Suc i) as
            (next_properties @ [\<lparr>name = prop_name i, path = v, persist = True\<rparr>]) w')"

definition WritePartArrays ::
  "Env \<Rightarrow> RDG \<Rightarrow> string \<Rightarrow> Trace \<Rightarrow> PropStorageInfo list Outcome \<times> Trace" where
  "WritePartArrays env rdg d w =
     (case WritePartArrays_loop env MirrorPropName d 0 (mirror_nodes rdg) [] w of
        (Failure e, w1) \<Rightarrow> (Failure e, w1)
      | (Fatal, w1) \<Rightarrow> (Fatal, w1)
      | (Success mirr, w1) \<Rightarrow>
          (case WritePartArrays_loop env MasterPropName d 0 (master_nodes rdg) mirr w1 of
             (Failure e, w2) \<Rightarrow> (Failure e, w2)
           | (Fatal, w2) \<Rightarrow> (Fatal, w2)
           | (Success mast, w2) \<Rightarrow>
               (case local_to_global_vector rdg of
                  None \<Rightarrow> (Success mast, w2)
                | Some l2g \<Rightarrow>
                    (case StoreArrowArrayAtName env l2g d kLocalToTGlobalPropName w2 of
                       (Failure e, w3) \<Rightarrow> (Failure e, w3)
                     | (Fatal, w3) \<Rightarrow> (Fatal, w3)
                     | (Success v, w3) \<Rightarrow>
                         (Success (mast @ [\<lparr>name = kLocalToTGlobalPropName, path = v,
                                             persist = True\<rparr>]), w3)))))"

text \<open>The setters of the part header, reached through \<open>core_->part_header()\<close>.\<close>

definition header :: "RDG \<Rightarrow> RDGPartHeader" where
  "header rdg = part_header (core rdg)"

definition set_header :: "RDGPartHeader \<Rightarrow> RDG \<Rightarrow> RDG" where
  "set_header h rdg = rdg\<lparr>core := (core rdg)\<lparr>part_header := h\<rparr>\<rparr>"

definition set_topology_path :: "string \<Rightarrow> RDG \<Rightarrow> RDG" where
  "set_topology_path p rdg = set_header ((header rdg)\<lparr>topology_path := p\<rparr>) rdg"

definition set_node_prop_info_list :: "PropStorageInfo list \<Rightarrow> RDG \<Rightarrow> RDG" where
  "set_node_prop_info_list l rdg = set_header ((header rdg)\<lparr>node_prop_info_list := l\<rparr>) rdg"

definition set_edge_prop_info_list :: "PropStorageInfo list \<Rightarrow> RDG \<Rightarrow> RDG" where
  "set_edge_prop_info_list l rdg = set_header ((header rdg)\<lparr>edge_prop_info_list := l\<rparr>) rdg"

definition set_part_properties :: "PropStorageInfo list \<Rightarrow> RDG \<Rightarrow> RDG" where
  "set_part_properties l rdg = set_header ((header rdg)\<lparr>part_prop_info_list := l\<rparr>) rdg"

text \<open>
  \<open>RDG::DoStore\<close>, in the order of the source: the topology file when the header has
  no topology path (\<open>DoStore\<close>), the node table (\<open>DoStore\<close>), the edge table
  (\<open>DoStore_edges\<close>, lines 316 to 326), the partition arrays (\<open>DoStore_parts\<close>,
  lines 328 to 336), the header and the commit (\<open>DoStore_commit\<close>, lines 338 to
  353). Each part ends with the call of the next.
\<close>

definition DoStore_commit ::
  "Env \<Rightarrow> RDGHandleImpl \<Rightarrow> string \<Rightarrow> RDG \<Rightarrow> Trace
   \<Rightarrow> unit Outcome \<times> RDGHandleImpl \<times> RDG \<times> Trace" where
  "DoStore_commit env handle command_line rdg w =
     (let w1 = w @ [EvHeaderWrite (header rdg)] in
      case PartHeader_Write env w (header rdg) (rdg_meta handle) of
        Failure e \<Rightarrow> (Failure e, handle, rdg, w1)
      | Fatal \<Rightarrow> (Fatal, handle, rdg, w1)
      | Success _ \<Rightarrow>
          (let rdg' = rdg\<lparr>lineage := lineage rdg @ [command_line]\<rparr> in
           case CommitRDG env handle (part_policy_id (metadata (header rdg')))
                  (part_transposed (metadata (header rdg'))) (lineage rdg') w1 of
             (res, handle', w2) \<Rightarrow> (res, handle', rdg', w2)))"

definition DoStore_parts ::
  "Env \<Rightarrow> RDGHandleImpl \<Rightarrow> string \<Rightarrow> RDG \<Rightarrow> Trace
   \<Rightarrow> unit Outcome \<times> RDGHandleImpl \<times> RDG \<times> Trace" where
  "DoStore_parts env handle command_line rdg w =
     (case WritePartArrays env rdg (dir (rdg_meta handle)) w of
        (Failure e, w1) \<Rightarrow> (Failure e, handle, rdg, w1)
      | (Fatal, w1) \<Rightarrow> (Fatal, handle, rdg, w1)
      | (Success part_write_result, w1) \<Rightarrow>
          DoStore_commit env handle command_line
            (set_part_properties part_write_result rdg) w1)"

definition DoStore_edges ::
  "Env \<Rightarrow> RDGHandleImpl \<Rightarrow> string \<Rightarrow> RDG \<Rightarrow> Trace
   \<Rightarrow> unit Outcome \<times> RDGHandleImpl \<times> RDG \<times> Trace" where
  "DoStore_edges env handle command_line rdg w =
     (case WriteTable env (edge_table (core rdg)) (edge_prop_info_list (header rdg))
             (dir (rdg_meta handle)) w of
        (Failure e, w1) \<Rightarrow> (Failure e, handle, rdg, w1)
      | (Fatal, w1) \<Rightarrow> (Fatal, handle, rdg, w1)
      | (Success edge_write_result, w1) \<Rightarrow>
          DoStore_parts env handle command_line
            (set_edge_prop_info_list edge_write_result rdg) w1)"

definition DoStore_topology :: "Env \<Rightarrow> RDGHandleImpl \<Rightarrow> RDG \<Rightarrow> Trace \<Rightarrow> RDG \<times> Trace" where
  "DoStore_topology env handle rdg w =
     (if topology_path (header rdg) = [] then
        (let t_path = RandFile env w (dir (rdg_meta handle)) ''topology'' in
         (set_topology_path (Uri_BaseName t_path) rdg,
          w @ [EvFaultPoint Normal,
               EvStartStore t_path (BytesFrame (topology_file_storage (core rdg))),
               EvFaultPoint Normal]))
      else (rdg, w))"

definition DoStore ::
  "Env \<Rightarrow> RDGHandleImpl \<Rightarrow> string \<Rightarrow> RDG \<Rightarrow> Trace
   \<Rightarrow> unit Outcome \<times> RDGHandleImpl \<times> RDG \<times> Trace" where
  "DoStore env handle command_line rdg0 w0 =
     (case DoStore_topology env handle rdg0 w0 of
        (rdg, w) \<Rightarrow>
          (case WriteTable env (node_table (core rdg)) (node_prop_info_list (header rdg))
                  (dir (rdg_meta handle)) w of
             (Failure e, w1) \<Rightarrow> (Failure e, handle, rdg, w1)
           | (Fatal, w1) \<Rightarrow> (Fatal, handle, rdg, w1)
           | (Success node_write_result, w1) \<Rightarrow>
               DoStore_edges env handle command_line
                 (set_node_prop_info_list node_write_result rdg) w1))"

text \<open>
  \<open>RDG::Store\<close>; \<open>ff\<close> is the content of the topology file frame the caller may
  hand over.
\<close>

definition Store ::
  "Env \<Rightarrow> RDGHandleImpl \<Rightarrow> string \<Rightarrow> string option \<Rightarrow> RDG \<Rightarrow> Trace
   \<Rightarrow> unit Outcome \<times> RDGHandleImpl \<times> RDG \<times> Trace" where
  "Store env handle command_line ff rdg0 w =
     (if \<not> AllowsWrite handle then (Failure InvalidArgument, handle, rdg0, w)
      else
        (let rdg = (if dir (rdg_meta handle) \<noteq> rdg_dir rdg0
                    then set_header (UnbindFromStorage env (header rdg0)) rdg0
                    else rdg0) in
         case WriteGroup_Make env w of
           Failure e \<Rightarrow> (Failure e, handle, rdg, w)
         | Fatal \<Rightarrow> (Fatal, handle, rdg, w)
         | Success _ \<Rightarrow>
             (case ff of
                None \<Rightarrow> DoStore env handle command_line rdg w
              | Some bytes \<Rightarrow>
                  (let t_path = RandFile env w (dir (rdg_meta handle)) ''topology'' in
                   DoStore env handle command_line
                     (set_topology_path (Uri_BaseName t_path) rdg)
                     (w @ [EvFaultPoint Normal, EvStartStore t_path (BytesFrame bytes),
                           EvFaultPoint Normal])))))"

subsection \<open>Loading a partition\<close>

text \<open>
  Modelled from the spec: \<open>AddTables\<close> (AddTables.h) is not part of the sources at
  hand. For each property of the list, in header order, it fetches the column's file
  from under the directory, decodes it to a one-column table and hands the table to
  \<open>add_fn\<close>; the first failure, of the load or of \<open>add_fn\<close>, ends it and is its
  result.
\<close>

fun AddTables ::
  "Env \<Rightarrow> string \<Rightarrow> PropStorageInfo list \<Rightarrow> (Table \<Rightarrow> 's \<Rightarrow> unit Outcome \<times> 's) \<Rightarrow> 's \<Rightarrow> Trace
   \<Rightarrow> unit Outcome \<times> 's \<times> Trace" where
  "AddTables env uri [] add_fn s w = (Success (), s, w)"
| "AddTables env uri (p # ps) add_fn s w =
     (let p_path = Uri_Join uri (path p);
          w1 = w @ [EvLoadTable (name p) p_path] in
      case LoadTable env w (name p) p_path of
        Failure e \<Rightarrow> (Failure e, s, w1)
      | Fatal \<Rightarrow> (Fatal, s, w1)
      | Success table \<Rightarrow>
          (case add_fn table s of
             (Failure e, s') \<Rightarrow> (Failure e, s', w1)
           | (Fatal, s') \<Rightarrow> (Fatal, s', w1)
           | (Success _, s') \<Rightarrow> AddTables env uri ps add_fn s' w1))"

text \<open>
  Modelled from the spec: \<open>RDGCore::AddNodeProperties\<close> and
  \<open>RDGCore::AddEdgeProperties\<close> (RDGCore.cpp) are not part of the sources at hand.
  They add the columns of a table to the in-memory node or edge table, or fail and
  leave it; the table that results is a parameter.
\<close>

definition RDGCore_AddNodeProperties :: "Env \<Rightarrow> Table \<Rightarrow> RDG \<Rightarrow> unit Outcome \<times> RDG" where
  "RDGCore_AddNodeProperties env table rdg =
     (case core_AddProperties env table (node_table (core rdg)) of
        Failure e \<Rightarrow> (Failure e, rdg)
      | Fatal \<Rightarrow> (Fatal, rdg)
      | Success t \<Rightarrow> (Success (), rdg\<lparr>core := (core rdg)\<lparr>node_table := t\<rparr>\<rparr>))"

definition RDGCore_AddEdgeProperties :: "Env \<Rightarrow> Table \<Rightarrow> RDG \<Rightarrow> unit Outcome \<times> RDG" where
  "RDGCore_AddEdgeProperties env table rdg =
     (case core_AddProperties env table (edge_table (core rdg)) of
        Failure e \<Rightarrow> (Failure e, rdg)
      | Fatal \<Rightarrow> (Fatal, rdg)
      | Success t \<Rightarrow> (Success (), rdg\<lparr>core := (core rdg)\<lparr>edge_table := t\<rparr>\<rparr>))"

text \<open>
  \<open>RDG::DoMake\<close>: the node tables and the edge tables (\<open>DoMake\<close>), then the
  partition tables and the topology (\<open>DoMake_parts\<close>, lines 376 to 396). When the
  load of the partition tables fails, the source returns \<open>edge_result.error()\<close>, the
  error of the edge load, which has succeeded at that point.
\<close>

definition DoMake_parts :: "Env \<Rightarrow> string \<Rightarrow> RDG \<Rightarrow> Trace \<Rightarrow> unit Outcome \<times> RDG \<times> Trace" where
  "DoMake_parts env metadata_dir rdg w =
     (case (if part_prop_info_list (header rdg) \<noteq> [] then
              AddTables env metadata_dir (part_prop_info_list (header rdg))
                AddPartitionMetadataArray rdg w
            else (Success (), rdg, w)) of
        (Failure e, rdg1, w1) \<Rightarrow>
          (case error_of_value env of
             None \<Rightarrow> (Fatal, rdg1, w1)
           | Some c \<Rightarrow> (Failure c, rdg1, w1))
      | (Fatal, rdg1, w1) \<Rightarrow> (Fatal, rdg1, w1)
      | (Success _, rdg1, w1) \<Rightarrow>
          (let t_path = Uri_Join metadata_dir (topology_path (header rdg1));
               w2 = w1 @ [EvBind t_path] in
           case FileView_Bind env w1 t_path of
             Failure e \<Rightarrow> (Failure e, rdg1, w2)
           | Fatal \<Rightarrow> (Fatal, rdg1, w2)
           | Success bytes \<Rightarrow>
               (Success (),
                rdg1\<lparr>core := (core rdg1)\<lparr>topology_file_storage := bytes\<rparr>,
                     rdg_dir := metadata_dir\<rparr>, w2)))"

definition DoMake :: "Env \<Rightarrow> string \<Rightarrow> RDG \<Rightarrow> Trace \<Rightarrow> unit Outcome \<times> RDG \<times> Trace" where
  "DoMake env metadata_dir rdg w =
     (case AddTables env metadata_dir (node_prop_info_list (header rdg))
             (RDGCore_AddNodeProperties env) rdg w of
        (Failure e, rdg1, w1) \<Rightarrow> (Failure e, rdg1, w1)
      | (Fatal, rdg1, w1) \<Rightarrow> (Fatal, rdg1, w1)
      | (Success _, rdg1, w1) \<Rightarrow>
          (case AddTables env metadata_dir (edge_prop_info_list (header rdg1))
                  (RDGCore_AddEdgeProperties env) rdg1 w1 of
             (Failure e, rdg2, w2) \<Rightarrow> (Failure e, rdg2, w2)
           | (Fatal, rdg2, w2) \<Rightarrow> (Fatal, rdg2, w2)
           | (Success _, rdg2, w2) \<Rightarrow> DoMake_parts env metadata_dir rdg2 w2))"

text \<open>
  The RDG that \<open>RDG(std::make_unique<RDGCore>(header))\<close> constructs: the header, and
  nothing loaded.
\<close>

definition RDG_of_header :: "RDGPartHeader \<Rightarrow> RDG" where
  "RDG_of_header h =
     \<lparr>core = \<lparr>part_header = h, node_table = [], edge_table = [],
              topology_file_storage = []\<rparr>,
      mirror_nodes = [], master_nodes = [], local_to_global_vector = None,
      lineage = [], rdg_dir = []\<rparr>"

text \<open>
  \<open>RDG::Make(meta, node_props, edge_props)\<close>; a null pointer for a property list is
  \<open>None\<close>. A failed load gives no RDG.
\<close>

definition Make ::
  "Env \<Rightarrow> RDGMeta \<Rightarrow> string list option \<Rightarrow> string list option \<Rightarrow> Trace
   \<Rightarrow> RDG Outcome \<times> Trace" where
  "Make env meta node_props edge_props w =
     (if \<not> IsEmptyRDG env meta \<and> num_hosts meta \<noteq> Comm_Num env then
        (Failure InvalidArgument, w)
      else
        (let partition_path = PartitionFileName env meta (Comm_ID env);
             w1 = w @ [EvHeaderRead partition_path] in
         case RDGPartHeader_Make env w partition_path of
           Failure e \<Rightarrow> (Failure e, w1)
         | Fatal \<Rightarrow> (Fatal, w1)
         | Success part_header_res \<Rightarrow>
             (case PrunePropsTo env part_header_res node_props edge_props of
                Failure e \<Rightarrow> (Failure e, w1)
              | Fatal \<Rightarrow> (Fatal, w1)
              | Success pruned \<Rightarrow>
                  (case DoMake env (dir meta) (RDG_of_header pruned) w1 of
                     (Failure e, rdg, w2) \<Rightarrow> (Failure e, w2)
                   | (Fatal, rdg, w2) \<Rightarrow> (Fatal, w2)
                   | (Success _, rdg, w2) \<Rightarrow> (Success rdg, w2)))))"

text \<open>\<open>RDG::Make(handle, node_props, edge_props)\<close>.\<close>

definition Make_handle ::
  "Env \<Rightarrow> RDGHandleImpl \<Rightarrow> string list option \<Rightarrow> string list option \<Rightarrow> Trace
   \<Rightarrow> RDG Outcome \<times> Trace" where
  "Make_handle env handle node_props edge_props w =
     (if \<not> AllowsRead handle then (Failure InvalidArgument, w)
      else Make env (rdg_meta handle) node_props edge_props w)"

subsection \<open>Adding properties\<close>




section \<open>The typed view (PropertyGraph.h)\<close>

text \<open>
  A \<open>PropertyFileGraph\<close> as far as \<open>PropertyGraph::Make\<close> looks at it: the node
  and the edge table. A \<open>PropertyGraph\<close> holds the graph it views and the two
  tuples of views.
\<close>

record PropertyFileGraph =
  pfg_node_table :: Table
  pfg_edge_table :: Table

record ('nv, 'ev) PropertyGraph =
  pfg :: PropertyFileGraph
  node_view :: 'nv
  edge_view :: 'ev

text \<open>
  \<open>PropertyGraph<NodeProps, EdgeProps>::Make(pfg, node_properties,
  edge_properties)\<close>. \<open>internal::MakeNodePropertyViews<NodeProps>\<close> and
  \<open>internal::MakeEdgePropertyViews<EdgeProps>\<close> are declared outside the sources
  at hand and are the first two parameters.
\<close>

definition PropertyGraph_Make ::
  "(PropertyFileGraph \<Rightarrow> string list \<Rightarrow> 'nv Outcome) \<Rightarrow>
   (PropertyFileGraph \<Rightarrow> string list \<Rightarrow> 'ev Outcome) \<Rightarrow>
   PropertyFileGraph \<Rightarrow> string list \<Rightarrow> string list \<Rightarrow> ('nv, 'ev) PropertyGraph Outcome" where
  "PropertyGraph_Make MakeNodePropertyViews MakeEdgePropertyViews g node_properties
     edge_properties =
     (case MakeNodePropertyViews g node_properties of
        Failure e \<Rightarrow> Failure e
      | Fatal \<Rightarrow> Fatal
      | Success node_view_result \<Rightarrow>
          (case MakeEdgePropertyViews g edge_properties of
             Failure e \<Rightarrow> Failure e
           | Fatal \<Rightarrow> Fatal
           | Success edge_view_result \<Rightarrow>
               Success \<lparr>pfg = g, node_view = node_view_result,
                        edge_view = edge_view_result\<rparr>))"

text \<open>
  \<open>PropertyGraph<NodeProps, EdgeProps>::Make(pfg)\<close>: every field name of the two
  schemas is requested.
\<close>

definition PropertyGraph_Make_all ::
  "(PropertyFileGraph \<Rightarrow> string list \<Rightarrow> 'nv Outcome) \<Rightarrow>
   (PropertyFileGraph \<Rightarrow> string list \<Rightarrow> 'ev Outcome) \<Rightarrow>
   PropertyFileGraph \<Rightarrow> ('nv, 'ev) PropertyGraph Outcome" where
  "PropertyGraph_Make_all MakeNodePropertyViews MakeEdgePropertyViews g =
     PropertyGraph_Make MakeNodePropertyViews MakeEdgePropertyViews g
       (map fst (pfg_node_table g)) (map fst (pfg_edge_table g))"

text \<open>
  Modelled from the spec: the binding of typed views (galois/graphs/Details.h and
  PropertyViews.h) is not part of the sources at hand. For each declared attribute
  type, in order, the column with the requested name is located in the table and a
  view over it is made; the binding fails with the name-mismatch error \<open>e_name\<close>
  when there is no such column, and with the type-mismatch error \<open>e_type\<close> when the
  column's encoded type is not the declared one. A view is the column it is bound to.
\<close>

fun MakePropertyViews ::
  "ErrorCode \<Rightarrow> ErrorCode \<Rightarrow> string list \<Rightarrow> Table \<Rightarrow> string list
   \<Rightarrow> ChunkedArray list Outcome" where
  "MakePropertyViews e_name e_type [] table properties = Success []"
| "MakePropertyViews e_name e_type (ty # tys) table [] = Failure e_name"
| "MakePropertyViews e_name e_type (ty # tys) table (nm # nms) =
     (case map_of table nm of
        None \<Rightarrow> Failure e_name
      | Some col \<Rightarrow>
          if array_type col \<noteq> ty then Failure e_type
          else
            (case MakePropertyViews e_name e_type tys table nms of
               Success views \<Rightarrow> Success (col # views)
             | r \<Rightarrow> r))"

definition MakeNodePropertyViews ::
  "ErrorCode \<Rightarrow> ErrorCode \<Rightarrow> string list \<Rightarrow> PropertyFileGraph \<Rightarrow> string list
   \<Rightarrow> ChunkedArray list Outcome" where
  "MakeNodePropertyViews e_name e_type NodeProps g properties =
     MakePropertyViews e_name e_type NodeProps (pfg_node_table g) properties"

definition MakeEdgePropertyViews ::
  "ErrorCode \<Rightarrow> ErrorCode \<Rightarrow> string list \<Rightarrow> PropertyFileGraph \<Rightarrow> string list
   \<Rightarrow> ChunkedArray list Outcome" where
  "MakeEdgePropertyViews e_name e_type EdgeProps g properties =
     MakePropertyViews e_name e_type EdgeProps (pfg_edge_table g) properties"

section \<open>Vocabulary of the properties and a concrete world\<close>

text \<open>
  A property is stored by \<open>WriteTable\<close> when it is to be persisted and has no path.
\<close>

definition needs_store :: "PropStorageInfo \<Rightarrow> bool" where
  "needs_store p \<longleftrightarrow> persist p \<and> path p = []"

text \<open>The writes enqueued in a piece of trace, in order: bound path and frame.\<close>

fun started :: "Trace \<Rightarrow> (string \<times> FileFrame) list" where
  "started [] = []"
| "started (EvStartStore p f # evs) = (p, f) # started evs"
| "started (_ # evs) = started evs"

text \<open>The frame that \<open>WriteTable\<close> stores for a property and its column.\<close>

definition column_frame :: "PropStorageInfo \<times> (string \<times> ChunkedArray) \<Rightarrow> FileFrame" where
  "column_frame pc =
     ColumnFrame (if name (fst pc) = [] then fst (snd pc) else name (fst pc)) (snd (snd pc))"

text \<open>
  The frames that \<open>WritePartArrays\<close> stores for an RDG: the mirror arrays, the
  master arrays and the local-to-global vector, each under its property name.
\<close>

definition part_frames :: "RDG \<Rightarrow> FileFrame list" where
  "part_frames rdg =
     map (\<lambda>ia. ColumnFrame (MirrorPropName (fst ia)) (snd ia)) (enumerate 0 (mirror_nodes rdg)) @
     map (\<lambda>ia. ColumnFrame (MasterPropName (fst ia)) (snd ia)) (enumerate 0 (master_nodes rdg)) @
     (case local_to_global_vector rdg of
        None \<Rightarrow> []
      | Some l2g \<Rightarrow> [ColumnFrame kLocalToTGlobalPropName l2g])"


definition part_columns :: "RDG \<Rightarrow> (string \<times> ChunkedArray) list" where
  "part_columns rdg =
     map (\<lambda>ia. (MirrorPropName (fst ia), snd ia)) (enumerate 0 (mirror_nodes rdg)) @
     map (\<lambda>ia. (MasterPropName (fst ia), snd ia)) (enumerate 0 (master_nodes rdg)) @
     (case local_to_global_vector rdg of
        None \<Rightarrow> []
      | Some l2g \<Rightarrow> [(kLocalToTGlobalPropName, l2g)])"

text \<open>
  A named column serializes when its file frame can always be set up and its Parquet
  encoding always succeeds; its store fails with \<open>e\<close> when the set-up of the file
  frame always fails with \<open>e\<close>, or when \<open>e\<close> is \<open>ArrowError\<close> and the Parquet
  encoding of the column never succeeds. In a sequence of named
  columns, the first failure is at position \<open>k\<close> when the columns before \<open>k\<close>
  serialize and the store of the column at \<open>k\<close> fails.
\<close>

definition serializes :: "Env \<Rightarrow> string \<times> ChunkedArray \<Rightarrow> bool" where
  "serializes env c \<longleftrightarrow>
     (\<forall>w. FileFrame_Init env w = Success () \<and>
          parquet_WriteTable env w (fst c) (snd c) = Success ())"



text \<open>
  The stores of a sequence of named columns, one after the other, up to the first
  that fails: what the loops of \<open>WriteTable\<close> and \<open>WritePartArrays\<close> have in
  common. The result holds the base names that were returned.
\<close>

fun store_all ::
  "Env \<Rightarrow> string \<Rightarrow> (string \<times> ChunkedArray) list \<Rightarrow> Trace \<Rightarrow> string list Outcome \<times> Trace" where
  "store_all env d [] w = (Success [], w)"
| "store_all env d (c # cs) w =
     (case StoreArrowArrayAtName env (snd c) d (fst c) w of
        (Failure e, w') \<Rightarrow> (Failure e, w')
      | (Fatal, w') \<Rightarrow> (Fatal, w')
      | (Success v, w') \<Rightarrow>
          (case store_all env d cs w' of
             (Success vs, w'') \<Rightarrow> (Success (v # vs), w'')
           | r \<Rightarrow> r))"

text \<open>
  The storage info that \<open>WritePartArrays\<close> records for a column it has stored under
  a path, and the one that belongs to an enqueued write.
\<close>

definition stored_prop :: "string \<times> ChunkedArray \<Rightarrow> string \<Rightarrow> PropStorageInfo" where
  "stored_prop c v = \<lparr>name = fst c, path = v, persist = True\<rparr>"

definition prop_of_store :: "string \<times> FileFrame \<Rightarrow> PropStorageInfo" where
  "prop_of_store st =
     \<lparr>name = (case snd st of ColumnFrame nm a \<Rightarrow> nm | BytesFrame b \<Rightarrow> []),
      path = Uri_BaseName (fst st), persist = True\<rparr>"

text \<open>
  The writes of columns among the writes enqueued in a piece of trace: all of them but
  the topology files.
\<close>

fun is_column :: "FileFrame \<Rightarrow> bool" where
  "is_column (ColumnFrame nm a) = True"
| "is_column (BytesFrame b) = False"

definition column_stores :: "Trace \<Rightarrow> (string \<times> FileFrame) list" where
  "column_stores evs = filter (\<lambda>st. is_column (snd st)) (started evs)"

text \<open>
  A world in which every collaborator succeeds: one host, file names made unique by
  the length of the trace, a core that appends the columns it is given.
\<close>

definition example_array :: ChunkedArray where
  "example_array = \<lparr>array_type = ''int64'', array_values = [1, 2]\<rparr>"

definition example_labels :: ChunkedArray where
  "example_labels = \<lparr>array_type = ''string'', array_values = [65, 66]\<rparr>"

definition example_header :: RDGPartHeader where
  "example_header =
     \<lparr>topology_path = [], node_prop_info_list = [], edge_prop_info_list = [],
      part_prop_info_list = [],
      metadata = \<lparr>part_policy_id = 0, part_transposed = False\<rparr>\<rparr>"

definition example_env :: Env where
  "example_env =
     \<lparr>Comm_Num = 1, Comm_ID = 0,
      RandFile = (\<lambda>w d nm. Uri_Join d (nm @ ''-'' @ to_string (length w))),
      FileFrame_Init = (\<lambda>w. Success ()),
      parquet_WriteTable = (\<lambda>w nm a. Success ()),
      PartHeader_Write = (\<lambda>w h m. Success ()),
      Finish = (\<lambda>w. Success ()),
      NS_Update = (\<lambda>w d v m. Success ()),
      ToJsonString = (\<lambda>m. ''{}''),
      RDGMeta_FileName = (\<lambda>d v. Uri_Join d ''meta''),
      FileStore = (\<lambda>w p c. Success ()),
      OneHostOnly_peer = (\<lambda>w. Success ()),
      IsEmptyRDG = (\<lambda>m. num_hosts m = 0),
      PartitionFileName = (\<lambda>m i. Uri_Join (dir m) ''part''),
      RDGPartHeader_Make = (\<lambda>w p. Success example_header),
      PrunePropsTo = (\<lambda>h n e. Success h),
      LoadTable = (\<lambda>w nm p. Success [(nm, example_array)]),
      core_AddProperties = (\<lambda>t cur. Success (cur @ t)),
      FileView_Bind = (\<lambda>w p. Success []),
      error_of_value = None,
      default_persist = False,
      WriteGroup_Make = (\<lambda>w. Success ()),
      UnbindFromStorage = (\<lambda>h. h),
      NDEBUG = False\<rparr>"

definition example_meta :: RDGMeta where
  "example_meta =
     \<lparr>dir = ''g'', version = 4, num_hosts = 1, policy_id = 0, transposed = False,
      meta_lineage = []\<rparr>"

definition example_handle :: RDGHandleImpl where
  "example_handle = \<lparr>rdg_meta = example_meta, AllowsRead = True, AllowsWrite = True\<rparr>"

definition example_rdg :: RDG where
  "example_rdg = RDG_of_header example_header"

text \<open>
  A loaded header that lists one partition-boundary column under a name that
  \<open>AddPartitionMetadataArray\<close> does not know, a graph with one node column of
  strings, and the two errors of a failed binding.
\<close>

definition bogus_rdg :: RDG where
  "bogus_rdg =
     RDG_of_header
       (example_header\<lparr>part_prop_info_list :=
          [\<lparr>name = ''bogus'', path = ''p'', persist = True\<rparr>]\<rparr>)"

definition example_graph :: PropertyFileGraph where
  "example_graph =
     \<lparr>pfg_node_table = [(''label'', example_labels)],
      pfg_edge_table = [(''weight'', example_array)]\<rparr>"

definition PropertyNotFound :: ErrorCode where
  "PropertyNotFound = OtherError 1"

definition TypeError :: ErrorCode where
  "TypeError = OtherError 2"





text \<open>
  A world in which the Parquet writer fails for the column of one name, an RDG whose
  node column \<open>id\<close> and edge column \<open>w\<close> are both to be persisted and have no
  path yet, with one mirror array and no topology file, and the trace of that RDG's
  store after the topology file, after the node table and after the edge table.
\<close>

definition fail_env :: "string \<Rightarrow> Env" where
  "fail_env nm0 =
     example_env\<lparr>parquet_WriteTable :=
       \<lambda>w nm a. if nm = nm0 then Failure (OtherError 9) else Success ()\<rparr>"

definition dirty_rdg :: RDG where
  "dirty_rdg =
     \<lparr>core = \<lparr>part_header =
               example_header\<lparr>node_prop_info_list := [\<lparr>name = ''id'', path = [], persist = True\<rparr>],
                              edge_prop_info_list := [\<lparr>name = ''w'', path = [], persist = True\<rparr>]\<rparr>,
             node_table = [(''id'', example_array)], edge_table = [(''w'', example_array)],
             topology_file_storage = ''csr''\<rparr>,
      mirror_nodes = [example_array], master_nodes = [], local_to_global_vector = None,
      lineage = [], rdg_dir = []\<rparr>"

definition stored_topology :: Trace where
  "stored_topology =
     [EvFaultPoint Normal, EvStartStore ''g/topology-0'' (BytesFrame ''csr''),
      EvFaultPoint Normal]"

definition stored_nodes :: Trace where
  "stored_nodes =
     stored_topology @
     [EvFaultPoint Normal, EvStartStore ''g/id-3'' (ColumnFrame ''id'' example_array),
      EvFaultPoint Normal]"


text \<open>
  A world in which every column is serialized and in which the write of the
  partition header and the completion of the enqueued writes give fixed results; and
  the RDG above with the table of four columns as its node table.
\<close>

definition late_env :: "unit Outcome \<Rightarrow> unit Outcome \<Rightarrow> Env" where
  "late_env h f = example_env\<lparr>PartHeader_Write := \<lambda>w hd m. h, Finish := \<lambda>w. f\<rparr>"


text \<open>
  The same RDG bound to the handle's directory, and what two stores of it in a row
  leave behind in the world where every collaborator succeeds: the header and the
  RDG with the given path of the mirror array and the given lineage, the handle at a
  version, the events of a commit, and the traces after the first and after the
  second store.
\<close>

definition bound_rdg :: RDG where
  "bound_rdg = dirty_rdg\<lparr>rdg_dir := ''g''\<rparr>"

definition stored_header :: "string \<Rightarrow> RDGPartHeader" where
  "stored_header mirror_path =
     \<lparr>topology_path = ''topology-0'',
      node_prop_info_list = [\<lparr>name = ''id'', path = ''id-3'', persist = True\<rparr>],
      edge_prop_info_list = [\<lparr>name = ''w'', path = ''w-6'', persist = True\<rparr>],
      part_prop_info_list =
        [\<lparr>name = ''mirror_nodes_0'', path = mirror_path, persist = True\<rparr>],
      metadata = \<lparr>part_policy_id = 0, part_transposed = False\<rparr>\<rparr>"

definition stored_rdg :: "string \<Rightarrow> string list \<Rightarrow> RDG" where
  "stored_rdg mirror_path lin =
     \<lparr>core = \<lparr>part_header = stored_header mirror_path,
             node_table = [(''id'', example_array)], edge_table = [(''w'', example_array)],
             topology_file_storage = ''csr''\<rparr>,
      mirror_nodes = [example_array], master_nodes = [], local_to_global_vector = None,
      lineage = lin, rdg_dir = ''g''\<rparr>"

definition committed :: "64 word \<Rightarrow> string list \<Rightarrow> RDGHandleImpl" where
  "committed v lin =
     \<lparr>rdg_meta = \<lparr>dir = ''g'', version = v, num_hosts = 1, policy_id = 0,
                  transposed = False, meta_lineage = lin\<rparr>,
      AllowsRead = True, AllowsWrite = True\<rparr>"

definition commit_events :: "string \<Rightarrow> 64 word \<Rightarrow> string list \<Rightarrow> Trace" where
  "commit_events mirror_path v lin =
     [EvHeaderWrite (stored_header mirror_path),
      EvFaultPoint High, EvFinish, EvFaultPoint High, EvBarrier,
      EvNSUpdate ''g'' v (rdg_meta (committed (v + 1) lin)),
      EvFaultPoint High, EvFaultPoint High, EvFileStore ''g/meta'' ''{}'']"

definition first_trace :: Trace where
  "first_trace =
     stored_nodes @
     [EvFaultPoint Normal, EvStartStore ''g/w-6'' (ColumnFrame ''w'' example_array),
      EvFaultPoint Normal, EvFaultPoint Normal,
      EvStartStore ''g/mirror_nodes_0-9'' (ColumnFrame ''mirror_nodes_0'' example_array)] @
     commit_events ''mirror_nodes_0-9'' 4 [''c1'']"

definition second_trace :: Trace where
  "second_trace =
     first_trace @
     [EvFaultPoint Normal, EvFaultPoint Normal, EvFaultPoint Normal,
      EvStartStore ''g/mirror_nodes_0-22'' (ColumnFrame ''mirror_nodes_0'' example_array)] @
     commit_events ''mirror_nodes_0-22'' 5 [''c1'', ''c2'']"


section \<open>Properties\<close>

lemma find_from_ge: "find_from s k i = Some j \<Longrightarrow> i \<le> j"
  by (induction s arbitrary: i) (auto split: if_splits dest: Suc_leD)

lemma find_from_prefix: "find_from s k i = Some i \<longleftrightarrow> prefix k s"
proof (cases s)
  case Nil
  then show ?thesis by auto
next
  case (Cons c cs)
  have "find_from cs k (Suc i) \<noteq> Some i"
    using find_from_ge [of cs k "Suc i" i] by auto
  with Cons show ?thesis by auto
qed

lemma string_find_prefix: "string_find s k = Some 0 \<longleftrightarrow> prefix k s"
  by (simp add: string_find_def find_from_prefix)

lemma mirror_master_exclusive:
  "prefix kMasterNodesPropName s \<Longrightarrow> \<not> prefix kMirrorNodesPropName s"
  by (auto simp: kMasterNodesPropName_def kMirrorNodesPropName_def prefix_def)

lemma local_to_global_no_prefix:
  "\<not> prefix kMirrorNodesPropName kLocalToTGlobalPropName"
  "\<not> prefix kMasterNodesPropName kLocalToTGlobalPropName"
  by (auto simp: kMasterNodesPropName_def kMirrorNodesPropName_def
      kLocalToTGlobalPropName_def prefix_def)

text \<open>
  Claim C8. \<open>AddPartitionMetadataArray\<close> routes a single-column table by the name of
  its column: a name that starts with \<open>mirror_nodes\<close> is appended to the mirror-node
  sets, a name that starts with \<open>master_nodes\<close> to the master-node sets, the exact
  name \<open>local_to_global_vector\<close> sets the local-to-global vector, and every other
  name gives \<open>InvalidArgument\<close> and leaves the whole RDG as it was. In no case do the
  node or edge attribute tables (the core) change.
\<close>

theorem AddPartitionMetadataArray_routes:
  "(prefix ''mirror_nodes'' nm \<longrightarrow>
      AddPartitionMetadataArray [(nm, col)] rdg =
        (Success (), rdg\<lparr>mirror_nodes := mirror_nodes rdg @ [col]\<rparr>)) \<and>
   (prefix ''master_nodes'' nm \<longrightarrow>
      AddPartitionMetadataArray [(nm, col)] rdg =
        (Success (), rdg\<lparr>master_nodes := master_nodes rdg @ [col]\<rparr>)) \<and>
   (nm = ''local_to_global_vector'' \<longrightarrow>
      AddPartitionMetadataArray [(nm, col)] rdg =
        (Success (), rdg\<lparr>local_to_global_vector := Some col\<rparr>)) \<and>
   (\<not> prefix ''mirror_nodes'' nm \<and> \<not> prefix ''master_nodes'' nm \<and>
    nm \<noteq> ''local_to_global_vector'' \<longrightarrow>
      AddPartitionMetadataArray [(nm, col)] rdg = (Failure InvalidArgument, rdg)) \<and>
   core (snd (AddPartitionMetadataArray [(nm, col)] rdg)) = core rdg"
proof -
  have mm: "prefix ''master_nodes'' nm \<Longrightarrow> \<not> prefix ''mirror_nodes'' nm"
    using mirror_master_exclusive [of nm]
    by (simp add: kMasterNodesPropName_def kMirrorNodesPropName_def)
  have l2g: "\<not> prefix ''mirror_nodes'' ''local_to_global_vector''"
    "\<not> prefix ''master_nodes'' ''local_to_global_vector''"
    using local_to_global_no_prefix
    by (simp_all add: kMasterNodesPropName_def kMirrorNodesPropName_def
        kLocalToTGlobalPropName_def)
  show ?thesis
    using mm l2g
    by (auto simp: AddPartitionMetadataArray_def string_find_prefix
        kMasterNodesPropName_def kMirrorNodesPropName_def kLocalToTGlobalPropName_def
        AddMirrorNodes_def AddMasterNodes_def set_local_to_global_vector_def)
qed


theorem AddPartitionMetadataArray_routes_witness:
  "prefix ''mirror_nodes'' ''mirror_nodes_0'' \<and>
   AddPartitionMetadataArray [(''mirror_nodes_0'', example_array)] example_rdg =
     (Success (), example_rdg\<lparr>mirror_nodes := mirror_nodes example_rdg @ [example_array]\<rparr>) \<and>
   prefix ''master_nodes'' ''master_nodes_3'' \<and>
   AddPartitionMetadataArray [(''master_nodes_3'', example_array)] example_rdg =
     (Success (), example_rdg\<lparr>master_nodes := master_nodes example_rdg @ [example_array]\<rparr>) \<and>
   AddPartitionMetadataArray [(''local_to_global_vector'', example_array)] example_rdg =
     (Success (), example_rdg\<lparr>local_to_global_vector := Some example_array\<rparr>) \<and>
   \<not> prefix ''mirror_nodes'' ''rank'' \<and> \<not> prefix ''master_nodes'' ''rank'' \<and>
   ''rank'' \<noteq> ''local_to_global_vector'' \<and>
   AddPartitionMetadataArray [(''rank'', example_array)] example_rdg =
     (Failure InvalidArgument, example_rdg)"
  using AddPartitionMetadataArray_routes [of "''mirror_nodes_0''" example_array example_rdg]
    AddPartitionMetadataArray_routes [of "''master_nodes_3''" example_array example_rdg]
    AddPartitionMetadataArray_routes [of "''local_to_global_vector''" example_array example_rdg]
    AddPartitionMetadataArray_routes [of "''rank''" example_array example_rdg]
  by simp

subsection \<open>The commit\<close>

text \<open>
  Claim C2. When \<open>WriteGroup::Finish\<close> reports that an enqueued write failed,
  \<open>CommitRDG\<close> returns that failure, the handle's cached \<open>RDGMeta\<close> is unchanged,
  and all that has happened is the fault checkpoint and the \<open>Finish\<close> itself: no
  barrier, no update of the naming service and no write of the metadata file.
\<close>

theorem CommitRDG_Finish_failure:
  assumes "Finish env (w @ [EvFaultPoint High]) = Failure e"
  shows "CommitRDG env handle pol tr lin w =
           (Failure e, handle, w @ [EvFaultPoint High, EvFinish])"
  using assms by (simp add: CommitRDG_def Let_def)

theorem CommitRDG_Finish_failure_witness:
  "Finish (example_env\<lparr>Finish := \<lambda>w. Failure (OtherError 5)\<rparr>) ([] @ [EvFaultPoint High])
     = Failure (OtherError 5) \<and>
   CommitRDG (example_env\<lparr>Finish := \<lambda>w. Failure (OtherError 5)\<rparr>) example_handle 0 False
     [''cmd''] [] =
     (Failure (OtherError 5), example_handle, [EvFaultPoint High, EvFinish])"
  using CommitRDG_Finish_failure
    [of "example_env\<lparr>Finish := \<lambda>w. Failure (OtherError 5)\<rparr>" "[]" "OtherError 5"
        example_handle 0 False "[''cmd'']"]
  by simp

text \<open>
  Claim C1 says that a failure of the naming service's \<open>Update\<close> makes \<open>CommitRDG\<close>
  fail and leaves the cached \<open>RDGMeta\<close> at the prior version. In the world where
  only \<open>Update\<close> fails, \<open>CommitRDG\<close> returns success and the handle is at the next
  version.
\<close>

theorem CommitRDG_Update_failure_ignored:
  "NS_Update (example_env\<lparr>NS_Update := \<lambda>w d v m. Failure (OtherError 17)\<rparr>)
     [EvFaultPoint High, EvFinish, EvFaultPoint High, EvBarrier] ''g'' 4
     (NextVersion example_meta 1 0 False [''cmd'']) = Failure (OtherError 17) \<and>
   fst (CommitRDG (example_env\<lparr>NS_Update := \<lambda>w d v m. Failure (OtherError 17)\<rparr>)
          example_handle 0 False [''cmd''] []) = Success () \<and>
   version (rdg_meta (fst (snd
     (CommitRDG (example_env\<lparr>NS_Update := \<lambda>w d v m. Failure (OtherError 17)\<rparr>)
        example_handle 0 False [''cmd''] [])))) = 5"
  by (simp add: CommitRDG_def OneHostOnly_def CommitRDG_store_meta_def example_env_def
      example_handle_def example_meta_def NextVersion_def set_rdg_meta_def Let_def)


subsection \<open>Loading\<close>

lemma AddTables_trace:
  "AddTables env uri ps add_fn s w = (r, s', w') \<Longrightarrow> prefix w w'"
proof (induction ps arbitrary: s w)
  case Nil
  then show ?case by simp
next
  case (Cons p ps)
  then show ?case
    by (auto simp: Let_def split: Outcome.splits prod.splits dest!: append_prefixD)
qed

lemma DoMake_parts_trace: "DoMake_parts env d rdg w = (r, rdg', w') \<Longrightarrow> prefix w w'"
  by (auto simp: DoMake_parts_def Let_def
      split: Outcome.splits prod.splits if_splits option.splits
      dest!: AddTables_trace intro: prefix_order.trans)

lemma DoMake_trace: "DoMake env d rdg w = (r, rdg', w') \<Longrightarrow> prefix w w'"
  by (auto simp: DoMake_def split: Outcome.splits prod.splits
      dest!: AddTables_trace DoMake_parts_trace intro: prefix_order.trans)

text \<open>
  Claim C7. For an \<open>RDGMeta\<close> that is not an empty RDG and whose host count differs
  from the current number of hosts, \<open>RDG::Make\<close> returns \<open>InvalidArgument\<close> and the
  trace is as before: no header was read and no data loaded. When the counts match,
  or the meta is an empty RDG, the check does not fail the load: every failure of
  \<open>Make\<close> then comes after the header has been asked for, and \<open>Make\<close> succeeds
  when the header read, the pruning and \<open>DoMake\<close> succeed.
\<close>

theorem Make_host_count_check:
  "(\<not> IsEmptyRDG env meta \<and> num_hosts meta \<noteq> Comm_Num env \<longrightarrow>
      Make env meta np ep w = (Failure InvalidArgument, w)) \<and>
   (IsEmptyRDG env meta \<or> num_hosts meta = Comm_Num env \<longrightarrow>
      (\<forall>e w'. Make env meta np ep w = (Failure e, w') \<longrightarrow>
         EvHeaderRead (PartitionFileName env meta (Comm_ID env)) \<in> set w') \<and>
      (\<forall>h h' rdg w'.
         RDGPartHeader_Make env w (PartitionFileName env meta (Comm_ID env)) = Success h \<and>
         PrunePropsTo env h np ep = Success h' \<and>
         DoMake env (dir meta) (RDG_of_header h')
           (w @ [EvHeaderRead (PartitionFileName env meta (Comm_ID env))]) =
           (Success (), rdg, w')
         \<longrightarrow> Make env meta np ep w = (Success rdg, w')))"
  by (auto simp: Make_def Let_def split: Outcome.splits prod.splits
      dest!: DoMake_trace dest: set_mono_prefix)

theorem Make_host_count_check_witness:
  "\<not> IsEmptyRDG example_env (example_meta\<lparr>num_hosts := 2\<rparr>) \<and>
   num_hosts (example_meta\<lparr>num_hosts := 2\<rparr>) \<noteq> Comm_Num example_env \<and>
   Make example_env (example_meta\<lparr>num_hosts := 2\<rparr>) None None [] =
     (Failure InvalidArgument, []) \<and>
   num_hosts example_meta = Comm_Num example_env \<and>
   Make example_env example_meta None None [] =
     (Success (example_rdg\<lparr>rdg_dir := ''g''\<rparr>), [EvHeaderRead ''g/part'', EvBind ''g/''])"
proof -
  have hosts: "\<not> IsEmptyRDG example_env (example_meta\<lparr>num_hosts := 2\<rparr>)"
    "num_hosts (example_meta\<lparr>num_hosts := 2\<rparr>) \<noteq> Comm_Num example_env"
    "num_hosts example_meta = Comm_Num example_env"
    by (simp_all add: example_env_def example_meta_def)
  have pfile: "PartitionFileName example_env example_meta (Comm_ID example_env) = ''g/part''"
    by (simp add: example_env_def example_meta_def Uri_Join_def)
  have steps: "RDGPartHeader_Make example_env [] ''g/part'' = Success example_header"
    "PrunePropsTo example_env example_header None None = Success example_header"
    by (simp_all add: example_env_def)
  have load: "DoMake example_env (dir example_meta) (RDG_of_header example_header)
      ([] @ [EvHeaderRead ''g/part'']) =
      (Success (), example_rdg\<lparr>rdg_dir := ''g''\<rparr>, [EvHeaderRead ''g/part'', EvBind ''g/''])"
    by (simp add: DoMake_def DoMake_parts_def example_rdg_def RDG_of_header_def header_def
        example_header_def example_env_def example_meta_def Uri_Join_def)
  show ?thesis
    using Make_host_count_check [of example_env "example_meta\<lparr>num_hosts := 2\<rparr>" None None "[]"]
      Make_host_count_check [of example_env example_meta None None "[]"]
      hosts steps load
    by (simp add: pfile)
qed

text \<open>
  Claim C6 says that \<open>DoMake\<close> returns the error of whichever table load failed. For
  a header whose only partition-boundary column has a name that
  \<open>AddPartitionMetadataArray\<close> rejects, the load of the partition tables fails
  with \<open>InvalidArgument\<close>; \<open>DoMake\<close> does not return that error, it gives what
  \<open>error()\<close> gives on the successful result of the edge load: it throws, or it
  returns whatever code the successful result holds.
\<close>

theorem DoMake_partition_error_replaced:
  "AddTables example_env ''g'' (part_prop_info_list (header bogus_rdg))
     AddPartitionMetadataArray bogus_rdg [] =
     (Failure InvalidArgument, bogus_rdg, [EvLoadTable ''bogus'' ''g/p'']) \<and>
   fst (DoMake example_env ''g'' bogus_rdg []) = Fatal \<and>
   fst (DoMake (example_env\<lparr>error_of_value := Some (OtherError 0)\<rparr>) ''g'' bogus_rdg []) =
     Failure (OtherError 0)"
  by (simp add: DoMake_def DoMake_parts_def bogus_rdg_def RDG_of_header_def header_def
      example_header_def example_env_def Uri_Join_def AddPartitionMetadataArray_def
      string_find_def kMirrorNodesPropName_def kMasterNodesPropName_def
      kLocalToTGlobalPropName_def)

subsection \<open>Adding properties\<close>

lemma header_set_node_prop_info_list [simp]:
  "node_prop_info_list (header (set_node_prop_info_list l rdg)) = l"
  "edge_prop_info_list (header (set_node_prop_info_list l rdg)) = edge_prop_info_list (header rdg)"
  "part_prop_info_list (header (set_node_prop_info_list l rdg)) = part_prop_info_list (header rdg)"
  "topology_path (header (set_node_prop_info_list l rdg)) = topology_path (header rdg)"
  "metadata (header (set_node_prop_info_list l rdg)) = metadata (header rdg)"
  by (simp_all add: set_node_prop_info_list_def set_header_def header_def)

lemma header_set_edge_prop_info_list [simp]:
  "node_prop_info_list (header (set_edge_prop_info_list l rdg)) = node_prop_info_list (header rdg)"
  "edge_prop_info_list (header (set_edge_prop_info_list l rdg)) = l"
  "part_prop_info_list (header (set_edge_prop_info_list l rdg)) = part_prop_info_list (header rdg)"
  "topology_path (header (set_edge_prop_info_list l rdg)) = topology_path (header rdg)"
  "metadata (header (set_edge_prop_info_list l rdg)) = metadata (header rdg)"
  by (simp_all add: set_edge_prop_info_list_def set_header_def header_def)

lemma header_set_part_properties [simp]:
  "node_prop_info_list (header (set_part_properties l rdg)) = node_prop_info_list (header rdg)"
  "edge_prop_info_list (header (set_part_properties l rdg)) = edge_prop_info_list (header rdg)"
  "part_prop_info_list (header (set_part_properties l rdg)) = l"
  "topology_path (header (set_part_properties l rdg)) = topology_path (header rdg)"
  "metadata (header (set_part_properties l rdg)) = metadata (header rdg)"
  by (simp_all add: set_part_properties_def set_header_def header_def)

lemma header_set_topology_path [simp]:
  "node_prop_info_list (header (set_topology_path t rdg)) = node_prop_info_list (header rdg)"
  "edge_prop_info_list (header (set_topology_path t rdg)) = edge_prop_info_list (header rdg)"
  "part_prop_info_list (header (set_topology_path t rdg)) = part_prop_info_list (header rdg)"
  "topology_path (header (set_topology_path t rdg)) = t"
  "metadata (header (set_topology_path t rdg)) = metadata (header rdg)"
  by (simp_all add: set_topology_path_def set_header_def header_def)

lemma setters_keep_rest [simp]:
  "node_table (core (set_header h rdg)) = node_table (core rdg)"
  "edge_table (core (set_header h rdg)) = edge_table (core rdg)"
  "topology_file_storage (core (set_header h rdg)) = topology_file_storage (core rdg)"
  "mirror_nodes (set_header h rdg) = mirror_nodes rdg"
  "master_nodes (set_header h rdg) = master_nodes rdg"
  "local_to_global_vector (set_header h rdg) = local_to_global_vector rdg"
  "lineage (set_header h rdg) = lineage rdg"
  "rdg_dir (set_header h rdg) = rdg_dir rdg"
  by (simp_all add: set_header_def)





subsection \<open>The typed view\<close>

text \<open>
  With the binding modelled from the spec, a binding that succeeds has located, for
  every declared type, the column of the requested name, and that column has the
  declared type.
\<close>

lemma MakePropertyViews_Success:
  "MakePropertyViews e_name e_type tys table nms = Success views \<Longrightarrow>
     length views = length tys \<and> length tys \<le> length nms \<and>
     (\<forall>i < length tys. map_of table (nms ! i) = Some (views ! i) \<and>
        array_type (views ! i) = tys ! i)"
proof (induction e_name e_type tys table nms arbitrary: views rule: MakePropertyViews.induct)
  case (1 e_name e_type table properties)
  then show ?case by simp
next
  case (2 e_name e_type ty tys table)
  then show ?case by simp
next
  case (3 e_name e_type ty tys table nm nms)
  then show ?case
    by (auto split: option.splits if_splits Outcome.splits simp: nth_Cons split: nat.splits)
qed

text \<open>
  Claim C9. \<open>PropertyGraph::Make\<close> returns the error of the node binding when that
  fails, the error of the edge binding when the node binding succeeds and the edge
  binding fails, and a graph exactly when both bindings succeed (the graph then holds
  the two tuples of views); an error it returns is the error of a failed binding.
  This holds for every binding of views; with the binding modelled from the spec, a
  request for \<open>int64\<close> on a column of strings is such a failure.
\<close>

theorem PropertyGraph_Make_binding:
  "(mk_node g nps = Failure e \<longrightarrow> PropertyGraph_Make mk_node mk_edge g nps eps = Failure e) \<and>
   (mk_node g nps = Success nv \<and> mk_edge g eps = Failure e \<longrightarrow>
      PropertyGraph_Make mk_node mk_edge g nps eps = Failure e) \<and>
   (PropertyGraph_Make mk_node mk_edge g nps eps = Success pg \<longleftrightarrow>
      (\<exists>nv' ev'. mk_node g nps = Success nv' \<and> mk_edge g eps = Success ev' \<and>
         pg = \<lparr>pfg = g, node_view = nv', edge_view = ev'\<rparr>)) \<and>
   (PropertyGraph_Make mk_node mk_edge g nps eps = Failure e \<longrightarrow>
      mk_node g nps = Failure e \<or> mk_edge g eps = Failure e)"
  by (auto simp: PropertyGraph_Make_def split: Outcome.splits)

theorem PropertyGraph_Make_binding_witness:
  "MakeNodePropertyViews PropertyNotFound TypeError [''int64''] example_graph [''label'']
     = Failure TypeError \<and>
   PropertyGraph_Make (MakeNodePropertyViews PropertyNotFound TypeError [''int64''])
     (MakeEdgePropertyViews PropertyNotFound TypeError [''int64''])
     example_graph [''label''] [''weight''] = Failure TypeError \<and>
   MakeNodePropertyViews PropertyNotFound TypeError [''string''] example_graph [''label'']
     = Success [example_labels] \<and>
   MakeEdgePropertyViews PropertyNotFound TypeError [''int64''] example_graph [''height'']
     = Failure PropertyNotFound \<and>
   PropertyGraph_Make (MakeNodePropertyViews PropertyNotFound TypeError [''string''])
     (MakeEdgePropertyViews PropertyNotFound TypeError [''int64''])
     example_graph [''label''] [''height''] = Failure PropertyNotFound \<and>
   MakeEdgePropertyViews PropertyNotFound TypeError [''int64''] example_graph [''weight'']
     = Success [example_array] \<and>
   PropertyGraph_Make (MakeNodePropertyViews PropertyNotFound TypeError [''string''])
     (MakeEdgePropertyViews PropertyNotFound TypeError [''int64''])
     example_graph [''label''] [''weight''] =
     Success \<lparr>pfg = example_graph, node_view = [example_labels], edge_view = [example_array]\<rparr>"
proof -
  have binds:
    "MakeNodePropertyViews PropertyNotFound TypeError [''int64''] example_graph [''label'']
       = Failure TypeError"
    "MakeNodePropertyViews PropertyNotFound TypeError [''string''] example_graph [''label'']
       = Success [example_labels]"
    "MakeEdgePropertyViews PropertyNotFound TypeError [''int64''] example_graph [''height'']
       = Failure PropertyNotFound"
    "MakeEdgePropertyViews PropertyNotFound TypeError [''int64''] example_graph [''weight'']
       = Success [example_array]"
    by (simp_all add: MakeNodePropertyViews_def MakeEdgePropertyViews_def example_graph_def
        example_labels_def example_array_def)
  show ?thesis
    using binds
      PropertyGraph_Make_binding
        [of "MakeNodePropertyViews PropertyNotFound TypeError [''int64'']" example_graph
          "[''label'']" TypeError
          "MakeEdgePropertyViews PropertyNotFound TypeError [''int64'']" "[''weight'']"]
      PropertyGraph_Make_binding
        [of "MakeNodePropertyViews PropertyNotFound TypeError [''string'']" example_graph
          "[''label'']" PropertyNotFound
          "MakeEdgePropertyViews PropertyNotFound TypeError [''int64'']" "[''height'']"
          "[example_labels]"]
      PropertyGraph_Make_binding
        [of "MakeNodePropertyViews PropertyNotFound TypeError [''string'']" example_graph
          "[''label'']" TypeError
          "MakeEdgePropertyViews PropertyNotFound TypeError [''int64'']" "[''weight'']"
          "[example_labels]"
          "\<lparr>pfg = example_graph, node_view = [example_labels], edge_view = [example_array]\<rparr>"]
    by simp
qed

subsection \<open>Writing a table\<close>

lemma started_append [simp]: "started (xs @ ys) = started xs @ started ys"
  by (induction xs rule: started.induct) simp_all

lemma StoreArrowArrayAtName_cases:
  assumes "StoreArrowArrayAtName env a d nm w = (r, w')"
  shows "(r = Success (Uri_BaseName (RandFile env w d nm)) \<and>
          w' = w @ [EvFaultPoint Normal, EvStartStore (RandFile env w d nm) (ColumnFrame nm a)]) \<or>
         ((\<exists>e. r = Failure e) \<and> w' = w)"
  using assms
  by (auto simp: StoreArrowArrayAtName_def DoStoreArrowArrayAtName_def Let_def
      split: Outcome.splits prod.splits)

lemma WriteTable_store_Success:
  "WriteTable_store env table d i ps acc w = (Success np, w') \<Longrightarrow>
     \<exists>vs evs. np = acc @ vs \<and> w' = w @ evs \<and>
       length vs = length (filter needs_store ps) \<and>
       map (\<lambda>st. Uri_BaseName (fst st)) (started evs) = vs \<and>
       map snd (started evs) =
         map column_frame (filter (\<lambda>pc. needs_store (fst pc)) (zip ps (drop i table)))"
proof (induction ps arbitrary: i acc w)
  case Nil
  then show ?case by simp
next
  case (Cons p ps)
  show ?case
  proof (cases "needs_store p")
    case False
    then have run: "WriteTable_store env table d (Suc i) ps acc w = (Success np, w')"
      using Cons.prems by (auto simp: needs_store_def)
    from Cons.IH [OF run] obtain vs evs where
      IH: "np = acc @ vs" "w' = w @ evs" "length vs = length (filter needs_store ps)"
        "map (\<lambda>st. Uri_BaseName (fst st)) (started evs) = vs"
        "map snd (started evs) =
           map column_frame (filter (\<lambda>pc. needs_store (fst pc)) (zip ps (drop (Suc i) table)))"
      by blast
    have "filter (\<lambda>pc. needs_store (fst pc)) (zip (p # ps) (drop i table)) =
          filter (\<lambda>pc. needs_store (fst pc)) (zip ps (drop (Suc i) table))"
    proof (cases "i < length table")
      case True
      then show ?thesis using False by (simp add: Cons_nth_drop_Suc [symmetric])
    next
      case False
      then show ?thesis by simp
    qed
    with IH False show ?thesis by auto
  next
    case True
    then have dirty: "persist p" "path p = []"
      by (simp_all add: needs_store_def)
    have inrange: "i < length table"
      using Cons.prems dirty by (auto split: if_splits)
    define nm where "nm = (if name p = [] then fst (table ! i) else name p)"
    obtain r w1 where st: "StoreArrowArrayAtName env (snd (table ! i)) d nm w = (r, w1)"
      by force
    from Cons.prems dirty inrange st obtain v where
      r: "r = Success v"
      and run: "WriteTable_store env table d (Suc i) ps (acc @ [v]) w1 = (Success np, w')"
      by (auto simp: nm_def Let_def split: Outcome.splits)
    from StoreArrowArrayAtName_cases [OF st] r have
      v: "v = Uri_BaseName (RandFile env w d nm)"
      and w1: "w1 = w @ [EvFaultPoint Normal,
                 EvStartStore (RandFile env w d nm) (ColumnFrame nm (snd (table ! i)))]"
      by auto
    from Cons.IH [OF run] obtain vs evs where
      IH: "np = (acc @ [v]) @ vs" "w' = w1 @ evs" "length vs = length (filter needs_store ps)"
        "map (\<lambda>st. Uri_BaseName (fst st)) (started evs) = vs"
        "map snd (started evs) =
           map column_frame (filter (\<lambda>pc. needs_store (fst pc)) (zip ps (drop (Suc i) table)))"
      by blast
    have zip: "zip (p # ps) (drop i table) = (p, table ! i) # zip ps (drop (Suc i) table)"
      using inrange by (simp add: Cons_nth_drop_Suc [symmetric])
    have frame: "column_frame (p, table ! i) = ColumnFrame nm (snd (table ! i))"
      by (simp add: column_frame_def nm_def)
    show ?thesis
      apply (rule exI [of _ "v # vs"])
      apply (rule exI [of _ "[EvFaultPoint Normal,
                 EvStartStore (RandFile env w d nm) (ColumnFrame nm (snd (table ! i)))] @ evs"])
      using IH True v w1 zip frame by simp
  qed
qed




lemma serializes_store:
  assumes "serializes env c"
  shows "StoreArrowArrayAtName env (snd c) d (fst c) w =
     (Success (Uri_BaseName (RandFile env w d (fst c))),
      w @ [EvFaultPoint Normal,
           EvStartStore (RandFile env w d (fst c)) (ColumnFrame (fst c) (snd c))])"
  using assms
  by (simp add: serializes_def StoreArrowArrayAtName_def DoStoreArrowArrayAtName_def Let_def)

lemma store_all_Success:
  "store_all env d cols w = (Success vs, w') \<Longrightarrow>
     \<exists>evs. w' = w @ evs \<and> length vs = length cols \<and>
       map snd (started evs) = map (\<lambda>c. ColumnFrame (fst c) (snd c)) cols \<and>
       map (\<lambda>st. Uri_BaseName (fst st)) (started evs) = vs"
proof (induction cols arbitrary: w vs)
  case Nil
  then show ?case by simp
next
  case (Cons c cs)
  obtain r w1 where st: "StoreArrowArrayAtName env (snd c) d (fst c) w = (r, w1)"
    by force
  from Cons.prems st obtain v vs' where r: "r = Success v" and vs: "vs = v # vs'"
    and rest: "store_all env d cs w1 = (Success vs', w')"
    by (auto split: Outcome.splits prod.splits)
  from StoreArrowArrayAtName_cases [OF st] r have
    v: "v = Uri_BaseName (RandFile env w d (fst c))"
    and w1: "w1 = w @ [EvFaultPoint Normal,
               EvStartStore (RandFile env w d (fst c)) (ColumnFrame (fst c) (snd c))]"
    by auto
  from Cons.IH [OF rest] obtain evs where
    "w' = w1 @ evs" "length vs' = length cs"
    "map snd (started evs) = map (\<lambda>c. ColumnFrame (fst c) (snd c)) cs"
    "map (\<lambda>st. Uri_BaseName (fst st)) (started evs) = vs'"
    by blast
  with v w1 vs show ?case
    by (intro exI [of _ "[EvFaultPoint Normal,
          EvStartStore (RandFile env w d (fst c)) (ColumnFrame (fst c) (snd c))] @ evs"]) simp
qed

lemma store_all_not_Fatal: "fst (store_all env d cols w) \<noteq> Fatal"
proof (induction cols arbitrary: w)
  case Nil
  then show ?case by simp
next
  case (Cons c cs)
  obtain r w1 where st: "StoreArrowArrayAtName env (snd c) d (fst c) w = (r, w1)"
    by force
  from StoreArrowArrayAtName_cases [OF st] have "r \<noteq> Fatal" by auto
  with st Cons.IH [of w1] show ?case
    by (auto split: Outcome.splits prod.splits)
qed




lemma store_all_append:
  "store_all env d (xs @ ys) w =
     (case store_all env d xs w of
        (Success vs, w1) \<Rightarrow>
          (case store_all env d ys w1 of
             (Success us, w2) \<Rightarrow> (Success (vs @ us), w2)
           | r \<Rightarrow> r)
      | r \<Rightarrow> r)"
  by (induction xs arbitrary: w) (auto split: Outcome.splits prod.splits)






lemma example_serializes: "serializes example_env c"
  by (simp add: serializes_def example_env_def)

lemma fail_env_fields [simp]:
  "RandFile (fail_env n) = RandFile example_env"
  "FileFrame_Init (fail_env n) = FileFrame_Init example_env"
  "parquet_WriteTable (fail_env n) =
     (\<lambda>w nm a. if nm = n then Failure (OtherError 9) else Success ())"
  by (simp_all add: fail_env_def)



lemma to_string_digits: "set (to_string n) \<subseteq> set ''0123456789''"
proof (induction n rule: to_string.induct)
  case (1 n)
  have digit: "k < 10 \<Longrightarrow> ''0123456789'' ! k \<in> set ''0123456789''" for k
    by (rule nth_mem) simp
  show ?case
  proof (cases "n < 10")
    case True
    with digit [of n] show ?thesis
      by (subst to_string.simps) simp
  next
    case False
    with 1 digit [of "n mod 10"] show ?thesis
      by (subst to_string.simps) simp
  qed
qed

lemma Uri_BaseName_Join:
  assumes "CHR ''/'' \<notin> set b"
  shows "Uri_BaseName (Uri_Join d b) = b"
proof -
  have "takeWhile (\<lambda>c. c \<noteq> CHR ''/'') (rev b @ CHR ''/'' # rev d) =
        rev b @ takeWhile (\<lambda>c. c \<noteq> CHR ''/'') (CHR ''/'' # rev d)"
    using assms by (intro takeWhile_append2) auto
  then show ?thesis
    by (simp add: Uri_BaseName_def Uri_Join_def)
qed





lemma example_names:
  "RandFile example_env w d nm = d @ ''/'' @ nm @ ''-'' @ to_string (length w)"
  by (simp add: example_env_def Uri_Join_def)



subsection \<open>Storing a partition\<close>

lemma WritePartArrays_loop_store_all:
  "WritePartArrays_loop env f d i as acc w =
     (case store_all env d (map (\<lambda>ia. (f (fst ia), snd ia)) (enumerate i as)) w of
        (Success vs, w') \<Rightarrow>
          (Success (acc @ map2 stored_prop
             (map (\<lambda>ia. (f (fst ia), snd ia)) (enumerate i as)) vs), w')
      | (Failure e, w') \<Rightarrow> (Failure e, w')
      | (Fatal, w') \<Rightarrow> (Fatal, w'))"
proof (induction as arbitrary: i acc w)
  case Nil
  then show ?case by simp
next
  case (Cons a as)
  show ?case
    by (auto simp: Cons.IH stored_prop_def split: Outcome.splits prod.splits)
qed

lemma part_frames_columns:
  "part_frames rdg = map (\<lambda>c. ColumnFrame (fst c) (snd c)) (part_columns rdg)"
  by (simp add: part_frames_def part_columns_def split: option.splits)

lemma WritePartArrays_store_all:
  "WritePartArrays env rdg d w =
     (case store_all env d (part_columns rdg) w of
        (Success vs, w') \<Rightarrow> (Success (map2 stored_prop (part_columns rdg) vs), w')
      | (Failure e, w') \<Rightarrow> (Failure e, w')
      | (Fatal, w') \<Rightarrow> (Fatal, w'))"
proof -
  define M where "M = map (\<lambda>ia. (MirrorPropName (fst ia), snd ia)) (enumerate 0 (mirror_nodes rdg))"
  define S where "S = map (\<lambda>ia. (MasterPropName (fst ia), snd ia)) (enumerate 0 (master_nodes rdg))"
  define L where "L = (case local_to_global_vector rdg of
        None \<Rightarrow> [] | Some l2g \<Rightarrow> [(kLocalToTGlobalPropName, l2g)])"
  have cols: "part_columns rdg = M @ S @ L"
    by (simp add: part_columns_def M_def S_def L_def)
  obtain r1 w1 where s1: "store_all env d M w = (r1, w1)" by force
  show ?thesis
  proof (cases r1)
    case (Failure e)
    with s1 show ?thesis
      by (simp add: WritePartArrays_def WritePartArrays_loop_store_all cols store_all_append
          M_def [symmetric])
  next
    case Fatal
    with s1 show ?thesis
      by (simp add: WritePartArrays_def WritePartArrays_loop_store_all cols store_all_append
          M_def [symmetric])
  next
    case (Success vs1)
    with s1 store_all_Success [of env d M w vs1 w1] have l1: "length vs1 = length M"
      by auto
    obtain r2 w2 where s2: "store_all env d S w1 = (r2, w2)" by force
    show ?thesis
    proof (cases r2)
      case (Failure e)
      with s1 s2 Success show ?thesis
        by (simp add: WritePartArrays_def WritePartArrays_loop_store_all cols store_all_append
            M_def [symmetric] S_def [symmetric])
    next
      case Fatal
      with s1 s2 Success show ?thesis
        by (simp add: WritePartArrays_def WritePartArrays_loop_store_all cols store_all_append
            M_def [symmetric] S_def [symmetric])
    next
      case S2: (Success vs2)
      with s2 store_all_Success [of env d S w1 vs2 w2] have l2: "length vs2 = length S"
        by auto
      show ?thesis
      proof (cases "local_to_global_vector rdg")
        case None
        then have "L = []" by (simp add: L_def)
        with s1 s2 Success S2 None l1 l2 show ?thesis
          by (simp add: WritePartArrays_def WritePartArrays_loop_store_all cols store_all_append
              M_def [symmetric] S_def [symmetric])
      next
        case (Some a)
        then have L: "L = [(kLocalToTGlobalPropName, a)]" by (simp add: L_def)
        obtain r3 w3 where s3: "StoreArrowArrayAtName env a d kLocalToTGlobalPropName w2 = (r3, w3)"
          by force
        from StoreArrowArrayAtName_cases [OF s3] have "r3 \<noteq> Fatal" by auto
        with s1 s2 s3 Success S2 Some L l1 l2 show ?thesis
          by (cases r3)
            (simp_all add: WritePartArrays_def WritePartArrays_loop_store_all cols
              store_all_append M_def [symmetric] S_def [symmetric] stored_prop_def)
      qed
    qed
  qed
qed



lemma prop_of_store_zip:
  "map snd xs = map (\<lambda>c. ColumnFrame (fst c) (snd c)) cols \<Longrightarrow>
   map (\<lambda>st. Uri_BaseName (fst st)) xs = vs \<Longrightarrow>
   map prop_of_store xs = map2 stored_prop cols vs"
proof (induction xs arbitrary: cols vs)
  case Nil
  then show ?case by simp
next
  case (Cons x xs)
  then obtain c cs v vs' where "cols = c # cs" "vs = v # vs'"
    by (cases cols; cases vs) auto
  with Cons show ?case
    by (auto simp: prop_of_store_def stored_prop_def)
qed

lemma WritePartArrays_Success_props:
  assumes "WritePartArrays env rdg d w = (Success pl, w')"
  shows "\<exists>evs. w' = w @ evs \<and> map snd (started evs) = part_frames rdg \<and>
           pl = map prop_of_store (started evs)"
proof -
  from assms obtain vs where
    st: "store_all env d (part_columns rdg) w = (Success vs, w')"
    and pl: "pl = map2 stored_prop (part_columns rdg) vs"
    by (auto simp: WritePartArrays_store_all split: Outcome.splits prod.splits)
  from store_all_Success [OF st] obtain evs where
    evs: "w' = w @ evs"
      "map snd (started evs) = map (\<lambda>c. ColumnFrame (fst c) (snd c)) (part_columns rdg)"
      "map (\<lambda>st. Uri_BaseName (fst st)) (started evs) = vs"
    by blast
  from prop_of_store_zip [OF evs(2,3)] pl evs(1,2) show ?thesis
    by (auto simp: part_frames_columns)
qed

lemma setters_keep_tables [simp]:
  "node_table (core (set_node_prop_info_list l rdg)) = node_table (core rdg)"
  "edge_table (core (set_node_prop_info_list l rdg)) = edge_table (core rdg)"
  "node_table (core (set_edge_prop_info_list l rdg)) = node_table (core rdg)"
  "edge_table (core (set_edge_prop_info_list l rdg)) = edge_table (core rdg)"
  "node_table (core (set_part_properties l rdg)) = node_table (core rdg)"
  "edge_table (core (set_part_properties l rdg)) = edge_table (core rdg)"
  "node_table (core (set_topology_path t rdg)) = node_table (core rdg)"
  "edge_table (core (set_topology_path t rdg)) = edge_table (core rdg)"
  by (simp_all add: set_node_prop_info_list_def set_edge_prop_info_list_def
      set_part_properties_def set_topology_path_def)

lemma setters_keep_arrays [simp]:
  "mirror_nodes (set_node_prop_info_list l rdg) = mirror_nodes rdg"
  "master_nodes (set_node_prop_info_list l rdg) = master_nodes rdg"
  "local_to_global_vector (set_node_prop_info_list l rdg) = local_to_global_vector rdg"
  "mirror_nodes (set_edge_prop_info_list l rdg) = mirror_nodes rdg"
  "master_nodes (set_edge_prop_info_list l rdg) = master_nodes rdg"
  "local_to_global_vector (set_edge_prop_info_list l rdg) = local_to_global_vector rdg"
  "mirror_nodes (set_part_properties l rdg) = mirror_nodes rdg"
  "master_nodes (set_part_properties l rdg) = master_nodes rdg"
  "local_to_global_vector (set_part_properties l rdg) = local_to_global_vector rdg"
  "mirror_nodes (set_topology_path t rdg) = mirror_nodes rdg"
  "master_nodes (set_topology_path t rdg) = master_nodes rdg"
  "local_to_global_vector (set_topology_path t rdg) = local_to_global_vector rdg"
  by (simp_all add: set_node_prop_info_list_def set_edge_prop_info_list_def
      set_part_properties_def set_topology_path_def)

lemma DoStore_topology_keeps:
  "node_table (core (fst (DoStore_topology env handle rdg w))) = node_table (core rdg)"
  "edge_table (core (fst (DoStore_topology env handle rdg w))) = edge_table (core rdg)"
  "node_prop_info_list (header (fst (DoStore_topology env handle rdg w))) =
     node_prop_info_list (header rdg)"
  "edge_prop_info_list (header (fst (DoStore_topology env handle rdg w))) =
     edge_prop_info_list (header rdg)"
  "part_prop_info_list (header (fst (DoStore_topology env handle rdg w))) =
     part_prop_info_list (header rdg)"
  "mirror_nodes (fst (DoStore_topology env handle rdg w)) = mirror_nodes rdg"
  "master_nodes (fst (DoStore_topology env handle rdg w)) = master_nodes rdg"
  "local_to_global_vector (fst (DoStore_topology env handle rdg w)) = local_to_global_vector rdg"
  by (simp_all add: DoStore_topology_def Let_def)

lemma WritePartArrays_cong:
  "mirror_nodes rdg' = mirror_nodes rdg \<Longrightarrow> master_nodes rdg' = master_nodes rdg \<Longrightarrow>
   local_to_global_vector rdg' = local_to_global_vector rdg \<Longrightarrow>
   WritePartArrays env rdg' d w = WritePartArrays env rdg d w"
  by (auto simp: WritePartArrays_def split: prod.splits Outcome.splits option.splits)

lemma WritePartArrays_setters [simp]:
  "WritePartArrays env (set_node_prop_info_list l rdg) d w = WritePartArrays env rdg d w"
  "WritePartArrays env (set_edge_prop_info_list l rdg) d w = WritePartArrays env rdg d w"
  by (rule WritePartArrays_cong; simp)+



lemma header_lineage [simp]: "header (rdg\<lparr>lineage := l\<rparr>) = header rdg"
  by (simp add: header_def)




lemma late_env_fields [simp]:
  "RandFile (late_env h f) = RandFile example_env"
  "PartHeader_Write (late_env h f) = (\<lambda>w hd m. h)"
  "Finish (late_env h f) = (\<lambda>w. f)"
  by (simp_all add: late_env_def)


lemma named_store:
  assumes "RandFile env = RandFile example_env" "serializes env (nm, a)" "CHR ''/'' \<notin> set nm"
  shows "StoreArrowArrayAtName env a d nm w =
     (Success (nm @ ''-'' @ to_string (length w)),
      w @ [EvFaultPoint Normal,
           EvStartStore (Uri_Join d (nm @ ''-'' @ to_string (length w))) (ColumnFrame nm a)])"
proof -
  have "CHR ''/'' \<notin> set (nm @ ''-'' @ to_string (length w))"
    using assms(3) to_string_digits [of "length w"] by auto
  from Uri_BaseName_Join [OF this] serializes_store [OF assms(2), of d w] assms(1) show ?thesis
    by (simp add: example_env_def)
qed




lemma one_column_write:
  assumes "RandFile env = RandFile example_env" "serializes env (nm, a)"
    "CHR ''/'' \<notin> set nm" "nm \<noteq> []"
  shows "WriteTable env [(nm, a)] [\<lparr>name = nm, path = [], persist = True\<rparr>] d w =
     (Success [\<lparr>name = nm, path = nm @ ''-'' @ to_string (length w), persist = True\<rparr>],
      w @ [EvFaultPoint Normal,
           EvStartStore (Uri_Join d (nm @ ''-'' @ to_string (length w))) (ColumnFrame nm a),
           EvFaultPoint Normal])"
  using assms(4) by (simp add: WriteTable_def named_store [OF assms(1-3)])

lemma one_mirror_write:
  assumes "RandFile env = RandFile example_env" "serializes env (''mirror_nodes_0'', a)"
    "mirror_nodes rdg = [a]" "master_nodes rdg = []" "local_to_global_vector rdg = None"
  shows "WritePartArrays env rdg d w =
     (Success [\<lparr>name = ''mirror_nodes_0'', path = ''mirror_nodes_0-'' @ to_string (length w),
                persist = True\<rparr>],
      w @ [EvFaultPoint Normal,
           EvStartStore (Uri_Join d (''mirror_nodes_0-'' @ to_string (length w)))
             (ColumnFrame ''mirror_nodes_0'' a)])"
proof -
  have nm: "MirrorPropName 0 = ''mirror_nodes_0''"
    by (simp add: MirrorPropName_def kMirrorNodesPropName_def to_string.simps)
  have "CHR ''/'' \<notin> set ''mirror_nodes_0''" by simp
  from named_store [OF assms(1,2) this] show ?thesis
    using assms(3-5) by (simp add: WritePartArrays_def nm)
qed











subsection \<open>Storing twice\<close>

lemma WriteTable_store_nonempty:
  assumes names: "\<forall>w d nm. Uri_BaseName (RandFile env w d nm) \<noteq> []"
  shows "WriteTable_store env table d i ps acc w = (Success np, w') \<Longrightarrow>
     \<forall>x \<in> set acc. x \<noteq> [] \<Longrightarrow> \<forall>x \<in> set np. x \<noteq> []"
proof (induction ps arbitrary: i acc w)
  case Nil
  then show ?case by simp
next
  case (Cons p ps)
  show ?case
  proof (cases "needs_store p")
    case False
    then have "WriteTable_store env table d (Suc i) ps acc w = (Success np, w')"
      using Cons.prems(1) by (auto simp: needs_store_def)
    from Cons.IH [OF this Cons.prems(2)] show ?thesis .
  next
    case True
    then have dirty: "persist p" "path p = []"
      by (simp_all add: needs_store_def)
    define nm where "nm = (if name p = [] then fst (table ! i) else name p)"
    obtain r w1 where st: "StoreArrowArrayAtName env (snd (table ! i)) d nm w = (r, w1)"
      by force
    from Cons.prems(1) dirty st obtain v where
      r: "r = Success v"
      and run: "WriteTable_store env table d (Suc i) ps (acc @ [v]) w1 = (Success np, w')"
      by (auto simp: nm_def Let_def split: Outcome.splits if_splits)
    from StoreArrowArrayAtName_cases [OF st] r names have "v \<noteq> []"
      by auto
    with Cons.prems(2) have "\<forall>x \<in> set (acc @ [v]). x \<noteq> []"
      by simp
    from Cons.IH [OF run this] show ?thesis .
  qed
qed

lemma WriteTable_assign_clean:
  "WriteTable_assign ps vs = Some nx \<Longrightarrow> \<forall>x \<in> set vs. x \<noteq> [] \<Longrightarrow>
     \<forall>p \<in> set nx. \<not> needs_store p"
proof (induction ps arbitrary: vs nx)
  case Nil
  then show ?case by simp
next
  case (Cons p ps)
  then show ?case
    by (fastforce simp: needs_store_def split: if_splits list.splits)
qed

lemma WriteTable_clean_result:
  assumes names: "\<forall>w d nm. Uri_BaseName (RandFile env w d nm) \<noteq> []"
    and run: "WriteTable env table props d w = (Success next_props, w')"
  shows "\<forall>p \<in> set next_props. \<not> needs_store p"
proof -
  from run obtain np w1 where
    st: "WriteTable_store env table d 0 props [] w = (Success np, w1)"
    and res: "if np = [] then next_props = props
              else WriteTable_assign props np = Some next_props"
    by (auto simp: WriteTable_def Let_def split: Outcome.splits prod.splits if_splits option.splits)
  show ?thesis
  proof (cases "np = []")
    case True
    from WriteTable_store_Success [OF st] True have "filter needs_store props = []"
      by auto
    with True res show ?thesis
      by (auto simp: filter_empty_conv)
  next
    case False
    from WriteTable_store_nonempty [OF names st] have "\<forall>x \<in> set np. x \<noteq> []"
      by simp
    with False res show ?thesis
      using WriteTable_assign_clean by auto
  qed
qed

lemma WriteTable_store_clean:
  "\<forall>p \<in> set ps. \<not> needs_store p \<Longrightarrow>
     WriteTable_store env table d i ps acc w = (Success acc, w)"
  by (induction ps arbitrary: i) (auto simp: needs_store_def)

lemma WriteTable_clean:
  "\<forall>p \<in> set ps. \<not> needs_store p \<Longrightarrow>
     WriteTable env table ps d w = (Success ps, w @ [EvFaultPoint Normal])"
proof (cases "WriteTable_store env table d 0 ps [] w = (Success [], w)")
  case True
  then show ?thesis by (simp add: WriteTable_def)
next
  case False
  assume "\<forall>p \<in> set ps. \<not> needs_store p"
  from WriteTable_store_clean [OF this] False show ?thesis by blast
qed

lemma column_stores_append [simp]:
  "column_stores (xs @ ys) = column_stores xs @ column_stores ys"
  by (simp add: column_stores_def)

lemma column_stores_none: "started evs = [] \<Longrightarrow> column_stores evs = []"
  by (simp add: column_stores_def)

lemma column_stores_all:
  assumes "map snd (started evs) = map (\<lambda>c. ColumnFrame (fst c) (snd c)) cols"
  shows "column_stores evs = started evs"
proof -
  have "\<forall>f \<in> set (map snd (started evs)). is_column f"
    unfolding assms by simp
  then show ?thesis
    by (simp add: column_stores_def)
qed

lemma CommitRDG_no_stores:
  "CommitRDG env handle pol tr lin w = (r, handle', w') \<Longrightarrow>
     \<exists>evs. w' = w @ evs \<and> started evs = []"
  by (auto simp: CommitRDG_def OneHostOnly_def CommitRDG_store_meta_def Let_def
      split: Outcome.splits prod.splits if_splits)

lemma set_same_list [simp]:
  "set_node_prop_info_list (node_prop_info_list (header rdg)) rdg = rdg"
  "set_edge_prop_info_list (edge_prop_info_list (header rdg)) rdg = rdg"
  by (simp_all add: set_node_prop_info_list_def set_edge_prop_info_list_def set_header_def
      header_def)

lemma CommitRDG_handle:
  "CommitRDG env handle pol tr lin w = (r, handle', w') \<Longrightarrow>
     AllowsWrite handle' = AllowsWrite handle \<and> dir (rdg_meta handle') = dir (rdg_meta handle)"
  by (auto simp: CommitRDG_def Let_def set_rdg_meta_def NextVersion_def
      split: Outcome.splits prod.splits)

lemma DoStore_commit_facts:
  assumes "DoStore_commit env handle cmd rdg w = (r, handle', rdg', w')"
  shows "header rdg' = header rdg" "core rdg' = core rdg"
    "mirror_nodes rdg' = mirror_nodes rdg" "master_nodes rdg' = master_nodes rdg"
    "local_to_global_vector rdg' = local_to_global_vector rdg" "rdg_dir rdg' = rdg_dir rdg"
    "AllowsWrite handle' = AllowsWrite handle" "dir (rdg_meta handle') = dir (rdg_meta handle)"
    "\<exists>evs. w' = w @ evs \<and> started evs = []"
proof -
  from assms consider
    (early) "rdg' = rdg" "handle' = handle" "w' = w @ [EvHeaderWrite (header rdg)]"
  | (commit) pol tr lin where "rdg' = rdg\<lparr>lineage := lineage rdg @ [cmd]\<rparr>"
      "CommitRDG env handle pol tr lin (w @ [EvHeaderWrite (header rdg)]) = (r, handle', w')"
    by (auto simp: DoStore_commit_def Let_def split: Outcome.splits prod.splits)
  then have "header rdg' = header rdg \<and> core rdg' = core rdg \<and>
    mirror_nodes rdg' = mirror_nodes rdg \<and> master_nodes rdg' = master_nodes rdg \<and>
    local_to_global_vector rdg' = local_to_global_vector rdg \<and> rdg_dir rdg' = rdg_dir rdg \<and>
    AllowsWrite handle' = AllowsWrite handle \<and> dir (rdg_meta handle') = dir (rdg_meta handle) \<and>
    (\<exists>evs. w' = w @ evs \<and> started evs = [])"
  proof cases
    case early
    then show ?thesis by (simp add: header_def)
  next
    case commit
    from CommitRDG_no_stores [OF commit(2)] obtain evs where
      "w' = (w @ [EvHeaderWrite (header rdg)]) @ evs" "started evs = []"
      by blast
    then have "w' = w @ ([EvHeaderWrite (header rdg)] @ evs) \<and>
        started ([EvHeaderWrite (header rdg)] @ evs) = []"
      by simp
    then have "\<exists>evs. w' = w @ evs \<and> started evs = []"
      by blast
    with commit(1) CommitRDG_handle [OF commit(2)] show ?thesis
      by (simp add: header_def)
  qed
  then show "header rdg' = header rdg" "core rdg' = core rdg"
    "mirror_nodes rdg' = mirror_nodes rdg" "master_nodes rdg' = master_nodes rdg"
    "local_to_global_vector rdg' = local_to_global_vector rdg" "rdg_dir rdg' = rdg_dir rdg"
    "AllowsWrite handle' = AllowsWrite handle" "dir (rdg_meta handle') = dir (rdg_meta handle)"
    "\<exists>evs. w' = w @ evs \<and> started evs = []"
    by simp_all
qed

lemma setters_keep_dir [simp]:
  "rdg_dir (set_node_prop_info_list l rdg) = rdg_dir rdg"
  "rdg_dir (set_edge_prop_info_list l rdg) = rdg_dir rdg"
  "rdg_dir (set_part_properties l rdg) = rdg_dir rdg"
  "rdg_dir (set_topology_path t rdg) = rdg_dir rdg"
  by (simp_all add: set_node_prop_info_list_def set_edge_prop_info_list_def
      set_part_properties_def set_topology_path_def)

lemma DoStore_parts_facts:
  assumes "DoStore_parts env handle cmd rdg w = (r, handle', rdg', w')"
  shows "node_prop_info_list (header rdg') = node_prop_info_list (header rdg) \<and>
    edge_prop_info_list (header rdg') = edge_prop_info_list (header rdg) \<and>
    topology_path (header rdg') = topology_path (header rdg) \<and>
    node_table (core rdg') = node_table (core rdg) \<and>
    edge_table (core rdg') = edge_table (core rdg) \<and>
    rdg_dir rdg' = rdg_dir rdg \<and>
    AllowsWrite handle' = AllowsWrite handle \<and> dir (rdg_meta handle') = dir (rdg_meta handle) \<and>
    (r = Success () \<longrightarrow>
       (\<exists>evs. w' = w @ evs \<and> map snd (started evs) = part_frames rdg \<and>
          part_prop_info_list (header rdg') = map prop_of_store (started evs)))"
proof -
  from assms consider
    (early) "rdg' = rdg" "handle' = handle" "r \<noteq> Success ()"
  | (commit) pl w1 where "WritePartArrays env rdg (dir (rdg_meta handle)) w = (Success pl, w1)"
      "DoStore_commit env handle cmd (set_part_properties pl rdg) w1 = (r, handle', rdg', w')"
    by (auto simp: DoStore_parts_def split: Outcome.splits prod.splits)
  then show ?thesis
  proof cases
    case early
    then show ?thesis by simp
  next
    case commit
    from WritePartArrays_Success_props [OF commit(1)] obtain e1 where
      e1: "w1 = w @ e1" "map snd (started e1) = part_frames rdg"
        "pl = map prop_of_store (started e1)"
      by blast
    from DoStore_commit_facts(9) [OF commit(2)] obtain e2 where
      e2: "w' = w1 @ e2" "started e2 = []"
      by blast
    from e1 e2 DoStore_commit_facts(1) [OF commit(2)]
    have "w' = w @ (e1 @ e2) \<and> map snd (started (e1 @ e2)) = part_frames rdg \<and>
        part_prop_info_list (header rdg') = map prop_of_store (started (e1 @ e2))"
      by simp
    then have "\<exists>evs. w' = w @ evs \<and> map snd (started evs) = part_frames rdg \<and>
        part_prop_info_list (header rdg') = map prop_of_store (started evs)"
      by blast
    with DoStore_commit_facts(1,2,6,7,8) [OF commit(2)] show ?thesis
      by simp
  qed
qed

lemma DoStore_clean:
  assumes node: "\<forall>p \<in> set (node_prop_info_list (header rdg)). \<not> needs_store p"
    and edge: "\<forall>p \<in> set (edge_prop_info_list (header rdg)). \<not> needs_store p"
    and run: "DoStore env handle cmd rdg w = (r, handle', rdg', w')"
  shows "node_prop_info_list (header rdg') = node_prop_info_list (header rdg) \<and>
    edge_prop_info_list (header rdg') = edge_prop_info_list (header rdg) \<and>
    (topology_path (header rdg) \<noteq> [] \<longrightarrow>
       topology_path (header rdg') = topology_path (header rdg)) \<and>
    (r = Success () \<longrightarrow>
       (\<exists>evs. w' = w @ evs \<and>
          map snd (column_stores evs) = part_frames rdg \<and>
          part_prop_info_list (header rdg') = map prop_of_store (column_stores evs) \<and>
          (topology_path (header rdg) \<noteq> [] \<longrightarrow> started evs = column_stores evs)))"
proof -
  obtain rdgt pre where t: "DoStore_topology env handle rdg w = (rdgt, w @ pre)"
    and pre: "column_stores pre = []"
      "topology_path (header rdg) \<noteq> [] \<longrightarrow> pre = [] \<and> rdgt = rdg"
    by (cases "topology_path (header rdg) = []")
      (simp_all add: DoStore_topology_def Let_def column_stores_def)
  have keep: "node_table (core rdgt) = node_table (core rdg)"
    "edge_table (core rdgt) = edge_table (core rdg)"
    "node_prop_info_list (header rdgt) = node_prop_info_list (header rdg)"
    "edge_prop_info_list (header rdgt) = edge_prop_info_list (header rdg)"
    "part_frames rdgt = part_frames rdg"
    using DoStore_topology_keeps [of env handle rdg w] t by (simp_all add: part_frames_def)
  have node': "\<forall>p \<in> set (node_prop_info_list (header rdgt)). \<not> needs_store p"
    and edge': "\<forall>p \<in> set (edge_prop_info_list (header rdgt)). \<not> needs_store p"
    using node edge keep by simp_all
  from run have parts: "DoStore_parts env handle cmd rdgt
      (((w @ pre) @ [EvFaultPoint Normal]) @ [EvFaultPoint Normal]) = (r, handle', rdg', w')"
    by (simp add: DoStore_def t WriteTable_clean [OF node'] DoStore_edges_def
        WriteTable_clean [OF edge'])
  from DoStore_parts_facts [OF parts] keep have same:
    "node_prop_info_list (header rdg') = node_prop_info_list (header rdg)"
    "edge_prop_info_list (header rdg') = edge_prop_info_list (header rdg)"
    "topology_path (header rdg') = topology_path (header rdgt)"
    and ev: "r = Success () \<longrightarrow>
      (\<exists>evs. w' = (((w @ pre) @ [EvFaultPoint Normal]) @ [EvFaultPoint Normal]) @ evs \<and>
         map snd (started evs) = part_frames rdg \<and>
         part_prop_info_list (header rdg') = map prop_of_store (started evs))"
    by simp_all
  have "\<exists>evs. w' = w @ evs \<and>
          map snd (column_stores evs) = part_frames rdg \<and>
          part_prop_info_list (header rdg') = map prop_of_store (column_stores evs) \<and>
          (topology_path (header rdg) \<noteq> [] \<longrightarrow> started evs = column_stores evs)"
    if "r = Success ()"
  proof -
    from ev that obtain evs where evs:
      "w' = w @ (pre @ [EvFaultPoint Normal, EvFaultPoint Normal] @ evs)"
      "map snd (started evs) = part_frames rdg"
      "part_prop_info_list (header rdg') = map prop_of_store (started evs)"
      by auto
    from evs(2) have cs: "column_stores evs = started evs"
      by (intro column_stores_all [of _ "part_columns rdg"]) (simp add: part_frames_columns)
    have c: "column_stores (pre @ [EvFaultPoint Normal, EvFaultPoint Normal] @ evs) = started evs"
      using pre(1) cs by (simp add: column_stores_def)
    have s: "topology_path (header rdg) \<noteq> [] \<longrightarrow>
        started (pre @ [EvFaultPoint Normal, EvFaultPoint Normal] @ evs) = started evs"
      using pre(2) by simp
    from evs c s show ?thesis
      by (intro exI [of _ "pre @ [EvFaultPoint Normal, EvFaultPoint Normal] @ evs"]) simp
  qed
  with same pre(2) show ?thesis by simp
qed

lemma DoStore_Success:
  assumes names: "\<forall>w d nm. Uri_BaseName (RandFile env w d nm) \<noteq> []"
    and run: "DoStore env handle cmd rdg w = (Success (), handle', rdg', w')"
  shows "(\<forall>p \<in> set (node_prop_info_list (header rdg')). \<not> needs_store p) \<and>
    (\<forall>p \<in> set (edge_prop_info_list (header rdg')). \<not> needs_store p) \<and>
    topology_path (header rdg') \<noteq> [] \<and>
    rdg_dir rdg' = rdg_dir rdg \<and> AllowsWrite handle' = AllowsWrite handle \<and>
    dir (rdg_meta handle') = dir (rdg_meta handle)"
proof -
  obtain rdgt wt where t: "DoStore_topology env handle rdg w = (rdgt, wt)"
    by force
  have tp: "topology_path (header rdgt) \<noteq> []" "rdg_dir rdgt = rdg_dir rdg"
    using t names by (auto simp: DoStore_topology_def Let_def split: if_splits)
  from run t obtain nl w1 where
    nw: "WriteTable env (node_table (core rdgt)) (node_prop_info_list (header rdgt))
           (dir (rdg_meta handle)) wt = (Success nl, w1)"
    and e: "DoStore_edges env handle cmd (set_node_prop_info_list nl rdgt) w1 =
           (Success (), handle', rdg', w')"
    by (auto simp: DoStore_def split: Outcome.splits prod.splits)
  from e obtain el w2 where
    ew: "WriteTable env (edge_table (core (set_node_prop_info_list nl rdgt)))
           (edge_prop_info_list (header (set_node_prop_info_list nl rdgt)))
           (dir (rdg_meta handle)) w1 = (Success el, w2)"
    and p: "DoStore_parts env handle cmd
              (set_edge_prop_info_list el (set_node_prop_info_list nl rdgt)) w2 =
           (Success (), handle', rdg', w')"
    by (auto simp: DoStore_edges_def split: Outcome.splits prod.splits)
  from DoStore_parts_facts [OF p] WriteTable_clean_result [OF names nw]
    WriteTable_clean_result [OF names ew] tp
  show ?thesis by simp
qed

lemma Store_bound:
  assumes "dir (rdg_meta handle) = rdg_dir rdg"
    and "Store env handle cmd ff rdg w = (r, handle', rdg', w')"
  shows "(r \<noteq> Success () \<and> handle' = handle \<and> rdg' = rdg \<and> w' = w) \<or>
         (\<exists>rdgs pre. AllowsWrite handle \<and>
            DoStore env handle cmd rdgs (w @ pre) = (r, handle', rdg', w') \<and>
            column_stores pre = [] \<and>
            (ff = None \<longrightarrow> rdgs = rdg \<and> pre = []) \<and>
            node_prop_info_list (header rdgs) = node_prop_info_list (header rdg) \<and>
            edge_prop_info_list (header rdgs) = edge_prop_info_list (header rdg) \<and>
            node_table (core rdgs) = node_table (core rdg) \<and>
            edge_table (core rdgs) = edge_table (core rdg) \<and>
            part_frames rdgs = part_frames rdg \<and> rdg_dir rdgs = rdg_dir rdg)"
proof (cases "AllowsWrite handle \<and> WriteGroup_Make env w = Success ()")
  case False
  with assms show ?thesis
    by (auto simp: Store_def split: if_splits Outcome.splits)
next
  case True
  show ?thesis
  proof (cases ff)
    case None
    with True assms have "DoStore env handle cmd rdg (w @ []) = (r, handle', rdg', w')"
      by (simp add: Store_def)
    with True None show ?thesis
      by (intro disjI2 exI [of _ rdg] exI [of _ "[]"]) (simp add: column_stores_def)
  next
    case (Some bytes)
    define t_path where "t_path = RandFile env w (dir (rdg_meta handle)) ''topology''"
    define pre where "pre = [EvFaultPoint Normal, EvStartStore t_path (BytesFrame bytes),
                           EvFaultPoint Normal]"
    from True Some assms have
      "DoStore env handle cmd (set_topology_path (Uri_BaseName t_path) rdg) (w @ pre) =
         (r, handle', rdg', w')"
      by (simp add: Store_def Let_def t_path_def pre_def)
    with True Some show ?thesis
      by (intro disjI2 exI [of _ "set_topology_path (Uri_BaseName t_path) rdg"] exI [of _ pre])
        (simp add: column_stores_def pre_def part_frames_def)
  qed
qed


text \<open>
  Claim C4, as the code has it. For an RDG that is bound to the handle's directory,
  when file names have non-empty base names: after a successful \<open>Store\<close>, with or
  without a topology frame, every node and edge property that is to be persisted has
  a non-empty path and the header has a topology path; \<open>WriteTable\<close> on the node
  or the edge table then stores nothing and returns its property list unchanged; and
  a second \<open>Store\<close> with no mutation in between, with or without a topology frame,
  in any world, leaves the node list and the edge list of the header as they are,
  and the topology path too when it is given no topology frame. The partition arrays
  are not tracked: when the second \<open>Store\<close> succeeds, the columns it has enqueued
  are exactly the partition arrays, the partition property list of the header is
  rebuilt from these new writes, and without a topology frame nothing else has been
  enqueued.
\<close>

theorem Store_twice:
  assumes names: "\<forall>w d nm. Uri_BaseName (RandFile env w d nm) \<noteq> []"
    and bound: "dir (rdg_meta handle) = rdg_dir rdg"
    and first: "Store env handle cmd ff rdg w = (Success (), handle1, rdg1, w1)"
  shows "(\<forall>p \<in> set (node_prop_info_list (header rdg1)) \<union> set (edge_prop_info_list (header rdg1)).
           persist p \<longrightarrow> path p \<noteq> []) \<and>
    topology_path (header rdg1) \<noteq> [] \<and>
    WriteTable env2 (node_table (core rdg1)) (node_prop_info_list (header rdg1)) d2 w2 =
      (Success (node_prop_info_list (header rdg1)), w2 @ [EvFaultPoint Normal]) \<and>
    WriteTable env2 (edge_table (core rdg1)) (edge_prop_info_list (header rdg1)) d2 w2 =
      (Success (edge_prop_info_list (header rdg1)), w2 @ [EvFaultPoint Normal]) \<and>
    (Store env2 handle1 cmd2 ff2 rdg1 w1 = (r, handle2, rdg2, w3) \<longrightarrow>
       node_prop_info_list (header rdg2) = node_prop_info_list (header rdg1) \<and>
       edge_prop_info_list (header rdg2) = edge_prop_info_list (header rdg1) \<and>
       (ff2 = None \<longrightarrow> topology_path (header rdg2) = topology_path (header rdg1)) \<and>
       (r = Success () \<longrightarrow>
          map snd (column_stores (drop (length w1) w3)) = part_frames rdg1 \<and>
          part_prop_info_list (header rdg2) =
            map prop_of_store (column_stores (drop (length w1) w3)) \<and>
          (ff2 = None \<longrightarrow>
             started (drop (length w1) w3) = column_stores (drop (length w1) w3))))"
proof -
  from Store_bound [OF bound first] obtain rdgs pre where
    run: "DoStore env handle cmd rdgs (w @ pre) = (Success (), handle1, rdg1, w1)"
    and dirs: "rdg_dir rdgs = rdg_dir rdg"
    by auto
  from DoStore_Success [OF names run] have
    node: "\<forall>p \<in> set (node_prop_info_list (header rdg1)). \<not> needs_store p"
    and edge: "\<forall>p \<in> set (edge_prop_info_list (header rdg1)). \<not> needs_store p"
    and topo: "topology_path (header rdg1) \<noteq> []"
    and bound1: "dir (rdg_meta handle1) = rdg_dir rdg1"
    using bound dirs by simp_all
  have paths: "\<forall>p \<in> set (node_prop_info_list (header rdg1)) \<union>
      set (edge_prop_info_list (header rdg1)). persist p \<longrightarrow> path p \<noteq> []"
    using node edge by (auto simp: needs_store_def)
  have second: "node_prop_info_list (header rdg2) = node_prop_info_list (header rdg1) \<and>
       edge_prop_info_list (header rdg2) = edge_prop_info_list (header rdg1) \<and>
       (ff2 = None \<longrightarrow> topology_path (header rdg2) = topology_path (header rdg1)) \<and>
       (r = Success () \<longrightarrow>
          map snd (column_stores (drop (length w1) w3)) = part_frames rdg1 \<and>
          part_prop_info_list (header rdg2) =
            map prop_of_store (column_stores (drop (length w1) w3)) \<and>
          (ff2 = None \<longrightarrow>
             started (drop (length w1) w3) = column_stores (drop (length w1) w3)))"
    if st: "Store env2 handle1 cmd2 ff2 rdg1 w1 = (r, handle2, rdg2, w3)"
  proof -
    from Store_bound [OF bound1 st] consider
      (early) "r \<noteq> Success ()" "rdg2 = rdg1"
    | (run) rdgs2 pre2 where
        "DoStore env2 handle1 cmd2 rdgs2 (w1 @ pre2) = (r, handle2, rdg2, w3)"
        "column_stores pre2 = []" "ff2 = None \<longrightarrow> rdgs2 = rdg1 \<and> pre2 = []"
        "node_prop_info_list (header rdgs2) = node_prop_info_list (header rdg1)"
        "edge_prop_info_list (header rdgs2) = edge_prop_info_list (header rdg1)"
        "part_frames rdgs2 = part_frames rdg1"
      by blast
    then show ?thesis
    proof cases
      case early
      then show ?thesis by simp
    next
      case run
      have node2: "\<forall>p \<in> set (node_prop_info_list (header rdgs2)). \<not> needs_store p"
        and edge2: "\<forall>p \<in> set (edge_prop_info_list (header rdgs2)). \<not> needs_store p"
        using node edge run(4,5) by simp_all
      from DoStore_clean [OF node2 edge2 run(1)] run(4,5,6) have
        same: "node_prop_info_list (header rdg2) = node_prop_info_list (header rdg1)"
          "edge_prop_info_list (header rdg2) = edge_prop_info_list (header rdg1)"
        and tp: "topology_path (header rdgs2) \<noteq> [] \<longrightarrow>
          topology_path (header rdg2) = topology_path (header rdgs2)"
        and ev: "r = Success () \<longrightarrow>
          (\<exists>evs. w3 = (w1 @ pre2) @ evs \<and>
            map snd (column_stores evs) = part_frames rdg1 \<and>
            part_prop_info_list (header rdg2) = map prop_of_store (column_stores evs) \<and>
            (topology_path (header rdgs2) \<noteq> [] \<longrightarrow> started evs = column_stores evs))"
        by simp_all
      have t: "ff2 = None \<longrightarrow> topology_path (header rdg2) = topology_path (header rdg1)"
        using tp run(3) topo by auto
      have "map snd (column_stores (drop (length w1) w3)) = part_frames rdg1 \<and>
          part_prop_info_list (header rdg2) =
            map prop_of_store (column_stores (drop (length w1) w3)) \<and>
          (ff2 = None \<longrightarrow>
             started (drop (length w1) w3) = column_stores (drop (length w1) w3))"
        if "r = Success ()"
      proof -
        from ev that obtain evs where evs: "w3 = w1 @ (pre2 @ evs)"
          "map snd (column_stores evs) = part_frames rdg1"
          "part_prop_info_list (header rdg2) = map prop_of_store (column_stores evs)"
          "topology_path (header rdgs2) \<noteq> [] \<longrightarrow> started evs = column_stores evs"
          by auto
        have d: "drop (length w1) w3 = pre2 @ evs"
          using evs(1) by simp
        have "ff2 = None \<longrightarrow> started (pre2 @ evs) = column_stores (pre2 @ evs)"
          using run(2,3) evs(4) topo by auto
        with evs(2,3) run(2) show ?thesis
          unfolding d by simp
      qed
      with same t show ?thesis by simp
    qed
  qed
  show ?thesis
    using paths topo WriteTable_clean [OF node] WriteTable_clean [OF edge] second
    by blast
qed


lemma to_string_digit: "\<exists>xs c. to_string n = xs @ [c] \<and> c \<in> set ''0123456789''"
proof -
  have "k < 10 \<Longrightarrow> ''0123456789'' ! k \<in> set ''0123456789''" for k
    by (rule nth_mem) simp
  then show ?thesis
    by (subst to_string.simps) (metis append_Nil mod_less_divisor zero_less_numeral)
qed

lemma example_env_names: "Uri_BaseName (RandFile example_env w d nm) \<noteq> []"
proof -
  obtain xs c where c: "to_string (length w) = xs @ [c]" "c \<in> set ''0123456789''"
    using to_string_digit by blast
  then have "c \<noteq> CHR ''/''" by auto
  with c(1) show ?thesis
    by (simp add: example_env_def Uri_Join_def Uri_BaseName_def)
qed

lemmas example_WriteTable_one = one_column_write [OF refl example_serializes]

lemmas example_WritePartArrays = one_mirror_write [OF refl example_serializes]

lemma example_CommitRDG:
  "CommitRDG example_env (committed v l0) pol tr lin w =
     (Success (), set_rdg_meta (NextVersion (rdg_meta (committed v l0)) 1 pol tr lin) (committed v l0),
      w @ [EvFaultPoint High, EvFinish, EvFaultPoint High, EvBarrier,
           EvNSUpdate ''g'' v (NextVersion (rdg_meta (committed v l0)) 1 pol tr lin),
           EvFaultPoint High, EvFaultPoint High, EvFileStore ''g/meta'' ''{}''])"
  by (simp add: CommitRDG_def CommitRDG_store_meta_def OneHostOnly_def example_env_def Let_def
      committed_def Uri_Join_def)

lemma example_DoStore_commit:
  "DoStore_commit example_env (committed v l0) cmd (stored_rdg mp lin) w =
     (Success (), committed (v + 1) (lin @ [cmd]), stored_rdg mp (lin @ [cmd]),
      w @ commit_events mp v (lin @ [cmd]))"
proof -
  have hw: "PartHeader_Write example_env w (stored_header mp)
      (rdg_meta (committed v l0)) = Success ()"
    by (simp add: example_env_def)
  have h: "header (stored_rdg mp lin\<lparr>lineage := lineage (stored_rdg mp lin) @ [cmd]\<rparr>) =
      stored_header mp" "header (stored_rdg mp lin) = stored_header mp"
    "lineage (stored_rdg mp lin) = lin"
    "stored_rdg mp lin\<lparr>lineage := lin @ [cmd]\<rparr> = stored_rdg mp (lin @ [cmd])"
    by (simp_all add: header_def stored_rdg_def)
  have m: "metadata (stored_header mp) = \<lparr>part_policy_id = 0, part_transposed = False\<rparr>"
    by (simp add: stored_header_def)
  have c: "set_rdg_meta (NextVersion (rdg_meta (committed v l0)) 1 0 False (lin @ [cmd]))
      (committed v l0) = committed (v + 1) (lin @ [cmd])"
    by (simp add: set_rdg_meta_def NextVersion_def committed_def)
  have n: "NextVersion (rdg_meta (committed v l0)) 1 0 False (lin @ [cmd]) =
      rdg_meta (committed (v + 1) (lin @ [cmd]))"
    by (simp add: NextVersion_def committed_def)
  show ?thesis
    by (simp add: DoStore_commit_def hw h example_CommitRDG commit_events_def Let_def)
      (simp add: NextVersion_def set_rdg_meta_def committed_def stored_rdg_def
        stored_header_def header_def)
qed

lemma example_digits:
  "to_string 0 = ''0''" "to_string 3 = ''3''" "to_string 6 = ''6''" "to_string 9 = ''9''"
  "to_string 22 = ''22''"
  by (simp_all add: to_string.simps)

lemma example_lengths:
  "length stored_topology = 3" "length stored_nodes = 6"
  by (simp_all add: stored_topology_def stored_nodes_def)

lemma bound_rdg_fields:
  "topology_path (header bound_rdg) = []"
  "node_table (core bound_rdg) = [(''id'', example_array)]"
  "edge_table (core bound_rdg) = [(''w'', example_array)]"
  "node_prop_info_list (header bound_rdg) = [\<lparr>name = ''id'', path = [], persist = True\<rparr>]"
  "edge_prop_info_list (header bound_rdg) = [\<lparr>name = ''w'', path = [], persist = True\<rparr>]"
  "mirror_nodes bound_rdg = [example_array]" "master_nodes bound_rdg = []"
  "local_to_global_vector bound_rdg = None" "rdg_dir bound_rdg = ''g''"
  "topology_file_storage (core bound_rdg) = ''csr''"
  by (simp_all add: bound_rdg_def dirty_rdg_def header_def example_header_def)

lemma example_handle_committed: "example_handle = committed 4 []"
  by (simp add: example_handle_def example_meta_def committed_def)

lemma committed_fields [simp]:
  "dir (rdg_meta (committed v lin)) = ''g''" "AllowsWrite (committed v lin)"
  by (simp_all add: committed_def)

lemma first_stored:
  "set_part_properties [\<lparr>name = ''mirror_nodes_0'', path = ''mirror_nodes_0-9'', persist = True\<rparr>]
     (set_edge_prop_info_list [\<lparr>name = ''w'', path = ''w-6'', persist = True\<rparr>]
       (set_node_prop_info_list [\<lparr>name = ''id'', path = ''id-3'', persist = True\<rparr>]
         (set_topology_path ''topology-0'' bound_rdg))) =
   stored_rdg ''mirror_nodes_0-9'' []"
  by (simp add: set_part_properties_def set_edge_prop_info_list_def set_node_prop_info_list_def
      set_topology_path_def set_header_def header_def bound_rdg_def dirty_rdg_def
      example_header_def stored_rdg_def stored_header_def)

lemma first_store_run:
  "Store example_env example_handle ''c1'' None bound_rdg [] =
     (Success (), committed 5 [''c1''], stored_rdg ''mirror_nodes_0-9'' [''c1''], first_trace)"
proof -
  have wg: "WriteGroup_Make example_env [] = Success ()"
    by (simp add: example_env_def)
  have t: "DoStore_topology example_env (committed 4 []) bound_rdg [] =
      (set_topology_path ''topology-0'' bound_rdg, stored_topology)"
    by (simp add: DoStore_topology_def bound_rdg_fields stored_topology_def example_env_def
        Uri_Join_def Uri_BaseName_def example_digits Let_def)
  have n: "WriteTable example_env [(''id'', example_array)]
      [\<lparr>name = ''id'', path = [], persist = True\<rparr>] ''g'' stored_topology =
      (Success [\<lparr>name = ''id'', path = ''id-3'', persist = True\<rparr>], stored_nodes)"
    by (simp add: example_WriteTable_one example_lengths stored_nodes_def example_digits
        Uri_Join_def)
  have e: "WriteTable example_env [(''w'', example_array)]
      [\<lparr>name = ''w'', path = [], persist = True\<rparr>] ''g'' stored_nodes =
      (Success [\<lparr>name = ''w'', path = ''w-6'', persist = True\<rparr>],
       stored_nodes @ [EvFaultPoint Normal,
         EvStartStore ''g/w-6'' (ColumnFrame ''w'' example_array), EvFaultPoint Normal])"
    by (simp add: example_WriteTable_one example_lengths example_digits Uri_Join_def)
  have p: "WritePartArrays example_env rdg ''g''
      (stored_nodes @ [EvFaultPoint Normal,
         EvStartStore ''g/w-6'' (ColumnFrame ''w'' example_array), EvFaultPoint Normal]) =
      (Success [\<lparr>name = ''mirror_nodes_0'', path = ''mirror_nodes_0-9'', persist = True\<rparr>],
       stored_nodes @ [EvFaultPoint Normal,
         EvStartStore ''g/w-6'' (ColumnFrame ''w'' example_array), EvFaultPoint Normal,
         EvFaultPoint Normal,
         EvStartStore ''g/mirror_nodes_0-9'' (ColumnFrame ''mirror_nodes_0'' example_array)])"
    if "mirror_nodes rdg = [example_array]" "master_nodes rdg = []"
      "local_to_global_vector rdg = None" for rdg
    using that
    by (simp add: example_WritePartArrays example_lengths example_digits Uri_Join_def)
  show ?thesis
    by (simp add: Store_def example_handle_committed bound_rdg_fields wg DoStore_def t n
        DoStore_edges_def e DoStore_parts_def p first_stored example_DoStore_commit
        first_trace_def)
qed

lemma stored_rdg_fields:
  "topology_path (header (stored_rdg mp lin)) = ''topology-0''"
  "node_table (core (stored_rdg mp lin)) = [(''id'', example_array)]"
  "edge_table (core (stored_rdg mp lin)) = [(''w'', example_array)]"
  "node_prop_info_list (header (stored_rdg mp lin)) =
     [\<lparr>name = ''id'', path = ''id-3'', persist = True\<rparr>]"
  "edge_prop_info_list (header (stored_rdg mp lin)) =
     [\<lparr>name = ''w'', path = ''w-6'', persist = True\<rparr>]"
  "part_prop_info_list (header (stored_rdg mp lin)) =
     [\<lparr>name = ''mirror_nodes_0'', path = mp, persist = True\<rparr>]"
  "mirror_nodes (stored_rdg mp lin) = [example_array]" "master_nodes (stored_rdg mp lin) = []"
  "local_to_global_vector (stored_rdg mp lin) = None" "rdg_dir (stored_rdg mp lin) = ''g''"
  by (simp_all add: stored_rdg_def stored_header_def header_def)

lemma length_first_trace: "length first_trace = 20"
  by (simp add: first_trace_def example_lengths commit_events_def)

lemma stored_rdg_same:
  "set_node_prop_info_list [\<lparr>name = ''id'', path = ''id-3'', persist = True\<rparr>]
     (stored_rdg mp lin) = stored_rdg mp lin"
  "set_edge_prop_info_list [\<lparr>name = ''w'', path = ''w-6'', persist = True\<rparr>]
     (stored_rdg mp lin) = stored_rdg mp lin"
  by (simp_all add: set_node_prop_info_list_def set_edge_prop_info_list_def set_header_def
      header_def stored_rdg_def stored_header_def)

lemma second_store_run:
  "Store example_env (committed 5 [''c1'']) ''c2'' None
     (stored_rdg ''mirror_nodes_0-9'' [''c1'']) first_trace =
     (Success (), committed 6 [''c1'', ''c2''], stored_rdg ''mirror_nodes_0-22'' [''c1'', ''c2''],
      second_trace)"
proof -
  have wg: "WriteGroup_Make example_env first_trace = Success ()"
    by (simp add: example_env_def)
  have t: "DoStore_topology example_env (committed 5 [''c1''])
      (stored_rdg ''mirror_nodes_0-9'' [''c1'']) first_trace =
      (stored_rdg ''mirror_nodes_0-9'' [''c1''], first_trace)"
    by (simp add: DoStore_topology_def stored_rdg_fields)
  have clean: "\<forall>p \<in> set [\<lparr>name = ''id'', path = ''id-3'', persist = True\<rparr>]. \<not> needs_store p"
    "\<forall>p \<in> set [\<lparr>name = ''w'', path = ''w-6'', persist = True\<rparr>]. \<not> needs_store p"
    by (simp_all add: needs_store_def)
  have p: "WritePartArrays example_env (stored_rdg ''mirror_nodes_0-9'' [''c1'']) ''g''
      (first_trace @ [EvFaultPoint Normal, EvFaultPoint Normal]) =
      (Success [\<lparr>name = ''mirror_nodes_0'', path = ''mirror_nodes_0-22'', persist = True\<rparr>],
       first_trace @ [EvFaultPoint Normal, EvFaultPoint Normal, EvFaultPoint Normal,
         EvStartStore ''g/mirror_nodes_0-22'' (ColumnFrame ''mirror_nodes_0'' example_array)])"
    by (simp add: example_WritePartArrays stored_rdg_fields length_first_trace example_digits
        Uri_Join_def)
  have s: "set_part_properties
      [\<lparr>name = ''mirror_nodes_0'', path = ''mirror_nodes_0-22'', persist = True\<rparr>]
      (stored_rdg ''mirror_nodes_0-9'' [''c1'']) = stored_rdg ''mirror_nodes_0-22'' [''c1'']"
    by (simp add: set_part_properties_def set_header_def header_def stored_rdg_def
        stored_header_def)
  have v: "(5 :: 64 word) + 1 = 6" by simp
  show ?thesis
    using example_DoStore_commit [of 5 "[''c1'']" "''c2''" "''mirror_nodes_0-22''" "[''c1'']"]
    by (simp add: Store_def stored_rdg_fields wg DoStore_def t
        WriteTable_clean [OF clean(1)] WriteTable_clean [OF clean(2)]
        DoStore_edges_def DoStore_parts_def stored_rdg_same p s v second_trace_def)
qed

lemma second_columns:
  "column_stores (drop (length first_trace) second_trace) =
     [(''g/mirror_nodes_0-22'', ColumnFrame ''mirror_nodes_0'' example_array)]"
  "started (drop (length first_trace) second_trace) =
     [(''g/mirror_nodes_0-22'', ColumnFrame ''mirror_nodes_0'' example_array)]"
  by (simp_all add: second_trace_def commit_events_def column_stores_def)

theorem Store_twice_witness:
  "dir (rdg_meta example_handle) = rdg_dir bound_rdg \<and>
   Store example_env example_handle ''c1'' None bound_rdg [] =
     (Success (), committed 5 [''c1''], stored_rdg ''mirror_nodes_0-9'' [''c1''], first_trace) \<and>
   topology_path (header (stored_rdg ''mirror_nodes_0-9'' [''c1''])) = ''topology-0'' \<and>
   WriteTable example_env (node_table (core (stored_rdg ''mirror_nodes_0-9'' [''c1''])))
     (node_prop_info_list (header (stored_rdg ''mirror_nodes_0-9'' [''c1'']))) ''g'' first_trace =
     (Success [\<lparr>name = ''id'', path = ''id-3'', persist = True\<rparr>],
      first_trace @ [EvFaultPoint Normal]) \<and>
   Store example_env (committed 5 [''c1'']) ''c2'' None
     (stored_rdg ''mirror_nodes_0-9'' [''c1'']) first_trace =
     (Success (), committed 6 [''c1'', ''c2''], stored_rdg ''mirror_nodes_0-22'' [''c1'', ''c2''],
      second_trace) \<and>
   node_prop_info_list (header (stored_rdg ''mirror_nodes_0-22'' [''c1'', ''c2''])) =
     node_prop_info_list (header (stored_rdg ''mirror_nodes_0-9'' [''c1''])) \<and>
   edge_prop_info_list (header (stored_rdg ''mirror_nodes_0-22'' [''c1'', ''c2''])) =
     edge_prop_info_list (header (stored_rdg ''mirror_nodes_0-9'' [''c1''])) \<and>
   topology_path (header (stored_rdg ''mirror_nodes_0-22'' [''c1'', ''c2''])) =
     topology_path (header (stored_rdg ''mirror_nodes_0-9'' [''c1''])) \<and>
   map snd (column_stores (drop (length first_trace) second_trace)) =
     part_frames (stored_rdg ''mirror_nodes_0-9'' [''c1'']) \<and>
   part_prop_info_list (header (stored_rdg ''mirror_nodes_0-22'' [''c1'', ''c2''])) =
     map prop_of_store (column_stores (drop (length first_trace) second_trace)) \<and>
   started (drop (length first_trace) second_trace) =
     [(''g/mirror_nodes_0-22'', ColumnFrame ''mirror_nodes_0'' example_array)] \<and>
   node_prop_info_list (header (fst (snd (snd
     (Store example_env (committed 5 [''c1'']) ''c2'' (Some ''csr2'')
        (stored_rdg ''mirror_nodes_0-9'' [''c1'']) first_trace))))) =
     [\<lparr>name = ''id'', path = ''id-3'', persist = True\<rparr>] \<and>
   edge_prop_info_list (header (fst (snd (snd
     (Store example_env (committed 5 [''c1'']) ''c2'' (Some ''csr2'')
        (stored_rdg ''mirror_nodes_0-9'' [''c1'']) first_trace))))) =
     [\<lparr>name = ''w'', path = ''w-6'', persist = True\<rparr>]"
proof -
  have names: "\<forall>w d nm. Uri_BaseName (RandFile example_env w d nm) \<noteq> []"
    using example_env_names by blast
  have bound: "dir (rdg_meta example_handle) = rdg_dir bound_rdg"
    by (simp add: example_handle_committed bound_rdg_fields)
  define S where "S = Store example_env (committed 5 [''c1'']) ''c2'' (Some ''csr2'')
        (stored_rdg ''mirror_nodes_0-9'' [''c1'']) first_trace"
  have S: "Store example_env (committed 5 [''c1'']) ''c2'' (Some ''csr2'')
        (stored_rdg ''mirror_nodes_0-9'' [''c1'']) first_trace =
      (fst S, fst (snd S), fst (snd (snd S)), snd (snd (snd S)))"
    by (simp add: S_def)
  have none: "topology_path (header (stored_rdg ''mirror_nodes_0-9'' [''c1''])) = ''topology-0'' \<and>
   WriteTable example_env (node_table (core (stored_rdg ''mirror_nodes_0-9'' [''c1''])))
     (node_prop_info_list (header (stored_rdg ''mirror_nodes_0-9'' [''c1'']))) ''g'' first_trace =
     (Success [\<lparr>name = ''id'', path = ''id-3'', persist = True\<rparr>],
      first_trace @ [EvFaultPoint Normal]) \<and>
   node_prop_info_list (header (stored_rdg ''mirror_nodes_0-22'' [''c1'', ''c2''])) =
     node_prop_info_list (header (stored_rdg ''mirror_nodes_0-9'' [''c1''])) \<and>
   edge_prop_info_list (header (stored_rdg ''mirror_nodes_0-22'' [''c1'', ''c2''])) =
     edge_prop_info_list (header (stored_rdg ''mirror_nodes_0-9'' [''c1''])) \<and>
   topology_path (header (stored_rdg ''mirror_nodes_0-22'' [''c1'', ''c2''])) =
     topology_path (header (stored_rdg ''mirror_nodes_0-9'' [''c1''])) \<and>
   map snd (column_stores (drop (length first_trace) second_trace)) =
     part_frames (stored_rdg ''mirror_nodes_0-9'' [''c1'']) \<and>
   part_prop_info_list (header (stored_rdg ''mirror_nodes_0-22'' [''c1'', ''c2''])) =
     map prop_of_store (column_stores (drop (length first_trace) second_trace)) \<and>
   started (drop (length first_trace) second_trace) =
     [(''g/mirror_nodes_0-22'', ColumnFrame ''mirror_nodes_0'' example_array)]"
    using Store_twice [OF names bound first_store_run, where ?env2.0 = example_env
      and ?d2.0 = "''g''" and ?w2.0 = first_trace and ?cmd2.0 = "''c2''" and r = "Success ()"
      and ?ff2.0 = None and ?handle2.0 = "committed 6 [''c1'', ''c2'']"
      and ?rdg2.0 = "stored_rdg ''mirror_nodes_0-22'' [''c1'', ''c2'']" and ?w3.0 = second_trace]
      second_store_run
    by (simp add: stored_rdg_fields second_columns)
  have some: "node_prop_info_list (header (fst (snd (snd S)))) =
       [\<lparr>name = ''id'', path = ''id-3'', persist = True\<rparr>] \<and>
     edge_prop_info_list (header (fst (snd (snd S)))) =
       [\<lparr>name = ''w'', path = ''w-6'', persist = True\<rparr>]"
    using Store_twice [OF names bound first_store_run, where ?env2.0 = example_env
      and ?d2.0 = "''g''" and ?w2.0 = first_trace and ?cmd2.0 = "''c2''" and r = "fst S"
      and ?ff2.0 = "Some ''csr2''" and ?handle2.0 = "fst (snd S)"
      and ?rdg2.0 = "fst (snd (snd S))" and ?w3.0 = "snd (snd (snd S))"] S
    by (simp add: stored_rdg_fields)
  from bound first_store_run second_store_run none some show ?thesis
    unfolding S_def by simp
qed

text \<open>
  Claim C4 as stated says that a second \<open>Store\<close> with no mutation in between
  rewrites no attribute and leaves the property lists of the header identical. For
  an RDG with one mirror array, both stores succeed, the second one enqueues the
  mirror array again, under a new file name, and the partition property list of the
  header changes from the first path to the second.
\<close>

theorem Store_twice_counterexample:
  "Store example_env example_handle ''c1'' None bound_rdg [] =
     (Success (), committed 5 [''c1''], stored_rdg ''mirror_nodes_0-9'' [''c1''], first_trace) \<and>
   Store example_env (committed 5 [''c1'']) ''c2'' None
     (stored_rdg ''mirror_nodes_0-9'' [''c1'']) first_trace =
     (Success (), committed 6 [''c1'', ''c2''], stored_rdg ''mirror_nodes_0-22'' [''c1'', ''c2''],
      second_trace) \<and>
   started (drop (length first_trace) second_trace) =
     [(''g/mirror_nodes_0-22'', ColumnFrame ''mirror_nodes_0'' example_array)] \<and>
   part_prop_info_list (header (stored_rdg ''mirror_nodes_0-9'' [''c1''])) =
     [\<lparr>name = ''mirror_nodes_0'', path = ''mirror_nodes_0-9'', persist = True\<rparr>] \<and>
   part_prop_info_list (header (stored_rdg ''mirror_nodes_0-22'' [''c1'', ''c2''])) =
     [\<lparr>name = ''mirror_nodes_0'', path = ''mirror_nodes_0-22'', persist = True\<rparr>]"
  by (simp add: first_store_run second_store_run second_trace_def commit_events_def
      stored_rdg_fields)

subsection \<open>Adding a property, then storing\<close>



end
